theory Spec2Isabelle
  imports Complex_Main
begin

section \<open>Errors\<close>

text \<open>
  Every exception the data set code can raise is a value. The assertion message is kept,
  since the two assertions of \<open>_load_data\<close> are told apart by it. Assertions are taken
  as enabled (the interpreter's default).
\<close>

datatype error =
    KeyError string
  | IndexError
  | ValueError
  | AxisError
  | TypeError
  | UnboundLocalError
  | AssertionError string

definition bindE :: "error + 'a \<Rightarrow> ('a \<Rightarrow> error + 'b) \<Rightarrow> error + 'b" where
  "bindE r f = (case r of Inl e \<Rightarrow> Inl e | Inr x \<Rightarrow> f x)"

definition py_assert :: "bool \<Rightarrow> string \<Rightarrow> error + unit" where
  "py_assert c msg = (if c then Inr () else Inl (AssertionError msg))"

section \<open>NumPy arrays\<close>

text \<open>
  An array is its shape and its buffer in row-major (C) order. Element values are
  idealised as exact complex numbers: a real array holds numbers with imaginary part 0,
  and rounding to single or double precision is not part of the model.
\<close>

record ndarray =
  shape :: "nat list"
  data :: "complex list"

fun ravel :: "nat list \<Rightarrow> nat list \<Rightarrow> nat" where
  "ravel (n # ns) (i # is) = i * prod_list ns + ravel ns is"
| "ravel _ _ = 0"

fun indices :: "nat list \<Rightarrow> nat list list" where
  "indices [] = [[]]"
| "indices (n # ns) = concat (map (\<lambda>i. map ((#) i) (indices ns)) [0..<n])"

definition in_range :: "nat list \<Rightarrow> nat list \<Rightarrow> bool" where
  "in_range idx shp = list_all2 (<) idx shp"

definition item :: "ndarray \<Rightarrow> nat list \<Rightarrow> complex" where
  "item a idx = data a ! ravel (shape a) idx"

definition tabulate :: "nat list \<Rightarrow> (nat list \<Rightarrow> complex) \<Rightarrow> ndarray" where
  "tabulate shp f = \<lparr>shape = shp, data = map f (indices shp)\<rparr>"

definition mk_array :: "nat list \<Rightarrow> complex list \<Rightarrow> ndarray" where
  "mk_array shp xs = \<lparr>shape = shp, data = xs\<rparr>"

text \<open>\<open>np.ones(shp)\<close>.\<close>

definition np_ones :: "nat list \<Rightarrow> ndarray" where
  "np_ones shp = \<lparr>shape = shp, data = replicate (prod_list shp) 1\<rparr>"

text \<open>\<open>a.shape[k]\<close>: a tuple index, IndexError when the rank is too small.\<close>

definition shape_at :: "ndarray \<Rightarrow> nat \<Rightarrow> error + nat" where
  "shape_at a k = (if k < length (shape a) then Inr (shape a ! k) else Inl IndexError)"

text \<open>\<open>a.shape[-2:]\<close>: a slice, which never fails.\<close>

definition shape_last2 :: "ndarray \<Rightarrow> nat list" where
  "shape_last2 a = drop (length (shape a) - 2) (shape a)"

text \<open>\<open>a[None, ...]\<close>: a new leading axis of length 1 on the same buffer.\<close>

definition add_axis0 :: "ndarray \<Rightarrow> ndarray" where
  "add_axis0 a = a\<lparr>shape := 1 # shape a\<rparr>"

text \<open>\<open>a[:, None, :, :]\<close>: a new axis of length 1 in second place; the three slices
  need rank 3 at least.\<close>

definition add_axis1 :: "ndarray \<Rightarrow> error + ndarray" where
  "add_axis1 a =
     (case shape a of
        n # m # k # rest \<Rightarrow> Inr (a\<lparr>shape := n # 1 # m # k # rest\<rparr>)
      | _ \<Rightarrow> Inl IndexError)"

text \<open>\<open>a.squeeze(0)\<close>: drops a leading axis of length 1, ValueError when its length
  is not 1. A rank-0 array is returned as it is (NumPy lets axis 0 pass there).\<close>

definition squeeze0 :: "ndarray \<Rightarrow> error + ndarray" where
  "squeeze0 a =
     (case shape a of
        [] \<Rightarrow> Inr a
      | n # rest \<Rightarrow> if n = 1 then Inr (a\<lparr>shape := rest\<rparr>) else Inl ValueError)"

text \<open>\<open>a[i]\<close> and \<open>a[i, ...]\<close> for an integer \<open>i\<close>: the \<open>i\<close>-th block of the buffer.\<close>

definition index0 :: "ndarray \<Rightarrow> nat \<Rightarrow> error + ndarray" where
  "index0 a i =
     (case shape a of
        [] \<Rightarrow> Inl IndexError
      | n # rest \<Rightarrow>
          if i < n
          then Inr \<lparr>shape = rest,
                    data = take (prod_list rest) (drop (i * prod_list rest) (data a))\<rparr>
          else Inl IndexError)"

subsection \<open>Broadcasting\<close>

text \<open>
  Shapes are aligned at their last axis; two lengths are compatible when they are equal
  or one of them is 1. \<open>broadcast_rev\<close> works on the reversed shapes.
\<close>

fun broadcast_rev :: "nat list \<Rightarrow> nat list \<Rightarrow> nat list option" where
  "broadcast_rev [] ys = Some ys"
| "broadcast_rev xs [] = Some xs"
| "broadcast_rev (x # xs) (y # ys) =
     (if x = y \<or> y = 1 then map_option ((#) x) (broadcast_rev xs ys)
      else if x = 1 then map_option ((#) y) (broadcast_rev xs ys)
      else None)"

definition broadcast_shapes :: "nat list \<Rightarrow> nat list \<Rightarrow> nat list option" where
  "broadcast_shapes s t = map_option rev (broadcast_rev (rev s) (rev t))"

text \<open>The index into an operand of shape \<open>shp\<close> that a result index reads: the last
  \<open>length shp\<close> positions, with 0 on every axis of length 1.\<close>

definition bcast_index :: "nat list \<Rightarrow> nat list \<Rightarrow> nat list" where
  "bcast_index shp idx =
     map2 (\<lambda>d i. if d = 1 then 0 else i) shp (drop (length idx - length shp) idx)"

definition binop ::
  "(complex \<Rightarrow> complex \<Rightarrow> complex) \<Rightarrow> ndarray \<Rightarrow> ndarray \<Rightarrow> error + ndarray" where
  "binop f a b =
     (case broadcast_shapes (shape a) (shape b) of
        None \<Rightarrow> Inl ValueError
      | Some s \<Rightarrow>
          Inr (tabulate s (\<lambda>idx. f (item a (bcast_index (shape a) idx))
                                   (item b (bcast_index (shape b) idx)))))"

definition np_mul :: "ndarray \<Rightarrow> ndarray \<Rightarrow> error + ndarray" where
  "np_mul = binop (*)"

definition np_add :: "ndarray \<Rightarrow> ndarray \<Rightarrow> error + ndarray" where
  "np_add = binop (+)"

definition np_div :: "ndarray \<Rightarrow> ndarray \<Rightarrow> error + ndarray" where
  "np_div = binop (/)"

text \<open>A real scalar times an array, and \<open>np.conj\<close>.\<close>

definition scalar_mul :: "real \<Rightarrow> ndarray \<Rightarrow> ndarray" where
  "scalar_mul c a = tabulate (shape a) (\<lambda>idx. complex_of_real c * item a idx)"

definition np_conj :: "ndarray \<Rightarrow> ndarray" where
  "np_conj a = tabulate (shape a) (\<lambda>idx. cnj (item a idx))"

text \<open>\<open>np.sum(a, axis=1)\<close>.\<close>

definition sum_axis1 :: "ndarray \<Rightarrow> error + ndarray" where
  "sum_axis1 a =
     (case shape a of
        n # c # rest \<Rightarrow>
          Inr (tabulate (n # rest)
                 (\<lambda>idx. \<Sum>k\<leftarrow>[0..<c]. item a (hd idx # k # tl idx)))
      | _ \<Rightarrow> Inl AxisError)"

subsection \<open>Element types\<close>

text \<open>
  Only the two element types the data set converts to are named. Converting to the real
  type discards the imaginary parts, as NumPy does (with a warning).
\<close>

datatype dtype = float32 | complex64

definition cast :: "dtype \<Rightarrow> ndarray \<Rightarrow> ndarray" where
  "cast dt a =
     (case dt of
        float32 \<Rightarrow> a\<lparr>data := map (\<lambda>z. complex_of_real (Re z)) (data a)\<rparr>
      | complex64 \<Rightarrow> a)"

text \<open>\<open>a.astype(dt)\<close>: the converted array together with its element type.\<close>

definition astype :: "dtype \<Rightarrow> ndarray \<Rightarrow> dtype \<times> ndarray" where
  "astype dt a = (dt, cast dt a)"

subsection \<open>Random numbers\<close>

text \<open>
  NumPy's global generator is an explicit state: the stream of standard normal draws
  still to come. \<open>randn\<close> fills an array from the front of the stream and returns the
  rest.
\<close>

type_synonym rng = "nat \<Rightarrow> real"

definition randn :: "nat list \<Rightarrow> rng \<Rightarrow> ndarray \<times> rng" where
  "randn shp g =
     (\<lparr>shape = shp, data = map (\<lambda>k. complex_of_real (g k)) [0..<prod_list shp]\<rparr>,
      \<lambda>k. g (k + prod_list shp))"

text \<open>\<open>np.random.randn(*shp) + 1j * np.random.randn(*shp)\<close>: the real parts are
  drawn first.\<close>

definition complex_randn :: "nat list \<Rightarrow> rng \<Rightarrow> ndarray \<times> rng" where
  "complex_randn shp g =
     (let (re, g1) = randn shp g;
          (im, g2) = randn shp g1
      in (tabulate shp (\<lambda>idx. item re idx + \<i> * item im idx), g2))"

subsection \<open>Percentile\<close>

text \<open>\<open>np.percentile(abs(a), 99, axis=(-1, -2))\<close> with linear interpolation between
  the two nearest ranks; the result has the leading axes of \<open>a\<close>.\<close>

definition percentile_list :: "real \<Rightarrow> real list \<Rightarrow> real" where
  "percentile_list q xs =
     (let s = sort xs;
          pos = q / 100 * real (length s - 1);
          lo = nat \<lfloor>pos\<rfloor>;
          hi = min (Suc lo) (length s - 1)
      in s ! lo + (pos - real lo) * (s ! hi - s ! lo))"

definition percentile99_last2 :: "ndarray \<Rightarrow> error + ndarray" where
  "percentile99_last2 a =
     (let r = length (shape a) in
      if r < 2 then Inl AxisError
      else
        Inr (tabulate (take (r - 2) (shape a))
               (\<lambda>idx. complex_of_real
                  (percentile_list 99
                     (map (\<lambda>j. cmod (item a (idx @ j))) (indices (shape_last2 a)))))))"

section \<open>Storage reader\<close>

text \<open>
  An HDF5 file is a finite map from data set names to arrays. \<open>F[k][idx, ...]\<close> raises
  KeyError when the name is missing and IndexError when \<open>idx\<close> is out of range.
\<close>

type_synonym store = "string \<Rightarrow> ndarray option"

definition dataset :: "store \<Rightarrow> string \<Rightarrow> error + ndarray" where
  "dataset F k = (case F k of None \<Rightarrow> Inl (KeyError k) | Some a \<Rightarrow> Inr a)"

definition read_at :: "store \<Rightarrow> string \<Rightarrow> nat \<Rightarrow> dtype \<Rightarrow> error + ndarray" where
  "read_at F k idx dt = bindE (dataset F k) (\<lambda>a. bindE (index0 a idx) (\<lambda>x. Inr (cast dt x)))"

text \<open>The decimal numeral of \<open>'mask_traj_{}'.format(idx)\<close>.\<close>

fun str_nat :: "nat \<Rightarrow> string" where
  "str_nat n =
     (if n < 10 then [''0123456789'' ! n]
      else str_nat (n div 10) @ [''0123456789'' ! (n mod 10)])"

declare str_nat.simps [simp del]

definition read_noise :: "store \<Rightarrow> nat \<Rightarrow> dtype \<Rightarrow> error + ndarray option" where
  "read_noise F idx dt =
     (if ''noise'' \<in> dom F
      then bindE (read_at F ''noise'' idx dt) (\<lambda>n. Inr (Some n))
      else Inr None)"

definition load_data ::
  "nat \<Rightarrow> store \<Rightarrow> store \<Rightarrow>
   error + (ndarray \<times> ndarray \<times> ndarray \<times> ndarray option \<times> ndarray)" where
  "load_data idx data_file masks_file =
     bindE (read_at data_file ''imgs'' idx complex64) (\<lambda>im.
     bindE (read_at data_file ''maps'' idx complex64) (\<lambda>mp.
     bindE (read_at masks_file ''masks'' idx float32) (\<lambda>mk.
     bindE (read_at masks_file ''loss_masks'' idx float32) (\<lambda>lm.
     bindE (read_noise masks_file idx complex64) (\<lambda>noise.
       if length (shape mk) = 2
       then Inr (add_axis0 im, add_axis0 mp, add_axis0 mk,
                 map_option add_axis0 noise, add_axis0 lm)
       else Inr (im, mp, mk, noise, lm))))))"

definition load_data_ksp ::
  "nat \<Rightarrow> store \<Rightarrow> store \<Rightarrow>
   error + (ndarray \<times> ndarray \<times> ndarray \<times> ndarray \<times> ndarray option \<times> ndarray)" where
  "load_data_ksp idx data_file masks_file =
     bindE (read_at data_file ''imgs'' idx complex64) (\<lambda>im.
     bindE (read_at data_file ''maps'' idx complex64) (\<lambda>mp.
     bindE (read_at data_file ''ksp'' idx complex64) (\<lambda>ks.
     bindE (if ''masks'' \<in> dom masks_file
            then read_at masks_file ''masks'' idx float32
            else bindE (dataset masks_file (''mask_traj_'' @ str_nat idx))
                   (\<lambda>a. Inr (cast float32 a))) (\<lambda>mk.
     bindE (read_at masks_file ''loss_masks'' idx float32) (\<lambda>lm.
     bindE (read_noise masks_file idx float32) (\<lambda>noise.
       if length (shape mk) = 2
       then Inr (add_axis0 im, add_axis0 mp, add_axis0 mk, add_axis0 ks,
                 map_option add_axis0 noise, add_axis0 lm)
       else Inr (im, mp, mk, ks, noise, lm)))))))"

section \<open>The data set\<close>

text \<open>
  \<open>fftmod\<close>, \<open>fft2uc\<close> and \<open>ifft2uc\<close> come from \<open>deepinpy.utils.utils\<close> and
  \<open>get_operator\<close> from the \<open>mrinufft\<close> package. Neither is among the sources at hand,
  so the data set is modelled over any four such functions. \<open>get_operator h traj shp nc\<close>
  is the \<open>op\<close> of the operator built from a trajectory, an image size and a coil count.
\<close>

record helpers =
  fftmod :: "ndarray \<Rightarrow> ndarray"
  fft2uc :: "ndarray \<Rightarrow> ndarray"
  ifft2uc :: "ndarray \<Rightarrow> ndarray"
  get_operator :: "ndarray \<Rightarrow> nat list \<Rightarrow> nat \<Rightarrow> ndarray \<Rightarrow> ndarray"

text \<open>The fields of \<open>MultiChannelMRIDataset\<close> that \<open>__getitem__\<close> reads.\<close>

record config =
  stdev :: real
  adjoint_data :: bool
  scale_data :: bool
  fully_sampled :: bool
  data_idx :: "nat option"
  inverse_crime :: bool
  noncart :: bool

text \<open>The entries of the dictionary \<open>__getitem__\<close> returns.\<close>

record sample =
  imgs :: "dtype \<times> ndarray"
  maps :: "dtype \<times> ndarray"
  masks :: "dtype \<times> ndarray"
  loss_masks :: "dtype \<times> ndarray"
  out :: "dtype \<times> ndarray"

definition noise_or_randn :: "ndarray option \<Rightarrow> nat list \<Rightarrow> rng \<Rightarrow> ndarray \<times> rng" where
  "noise_or_randn noise shp g =
     (case noise of None \<Rightarrow> complex_randn shp g | Some n \<Rightarrow> (n, g))"

text \<open>\<open>1 / np.sqrt(2) * self.stdev\<close>.\<close>

definition noise_scale :: "config \<Rightarrow> real" where
  "noise_scale cfg = 1 / sqrt 2 * stdev cfg"

text \<open>
  \<open>_sim_data\<close> up to its output transform (lines 141 to 161). In the non-Cartesian
  branch the noise is drawn when none is given, and then not used: the only addition of
  noise to a non-Cartesian \<open>out\<close> sits in the \<open>else\<close> branch of \<open>if self.noncart\<close>,
  where \<open>out\<close> has no value yet.
\<close>

definition sim_pre ::
  "helpers \<Rightarrow> config \<Rightarrow> ndarray \<Rightarrow> ndarray \<Rightarrow> ndarray \<Rightarrow> ndarray option \<Rightarrow>
   ndarray option \<Rightarrow> rng \<Rightarrow> error + (ndarray \<times> rng)" where
  "sim_pre h cfg im mp mk noise ksp g =
     (if noncart cfg then
        bindE (index0 mk 0) (\<lambda>traj.
        bindE (shape_at mp 1) (\<lambda>nc.
        bindE (case ksp of None \<Rightarrow> Inl TypeError | Some k \<Rightarrow> Inr k) (\<lambda>k.
          let per_ch_img = ifft2uc h k;
              o1 = get_operator h traj (shape_last2 mp) nc per_ch_img;
              o2 = (if length (shape o1) = 2 then add_axis0 o1 else o1);
              (noise', g') = noise_or_randn noise (shape o2) g
          in Inr (o2, g'))))
      else
        let (noise', g') = noise_or_randn noise (shape mp) g in
        if inverse_crime cfg \<and> ksp = None then
          bindE (add_axis1 mk) (\<lambda>m1.
          bindE (add_axis1 im) (\<lambda>i1.
          bindE (np_mul i1 mp) (\<lambda>p.
          bindE (np_add (fft2uc h p) (scalar_mul (noise_scale cfg) noise')) (\<lambda>s.
          bindE (np_mul m1 s) (\<lambda>ou. Inr (ou, g'))))))
        else if noncart cfg then Inl UnboundLocalError
        else
          (case ksp of
             None \<Rightarrow> Inl TypeError
           | Some k \<Rightarrow>
               bindE (np_add k (scalar_mul (noise_scale cfg) noise')) (\<lambda>s.
               bindE (np_mul (add_axis0 mk) s) (\<lambda>ou. Inr (ou, g')))))"

text \<open>The output transform (lines 162 to 165).\<close>

definition output_transform ::
  "helpers \<Rightarrow> config \<Rightarrow> ndarray \<Rightarrow> ndarray \<Rightarrow> error + ndarray" where
  "output_transform h cfg mp ou =
     (if \<not> adjoint_data cfg \<and> \<not> noncart cfg then Inr (fftmod h ou)
      else if adjoint_data cfg \<and> \<not> noncart cfg then
        bindE (np_mul (np_conj mp) (ifft2uc h ou)) sum_axis1
      else Inr ou)"

definition sim_data ::
  "helpers \<Rightarrow> config \<Rightarrow> ndarray \<Rightarrow> ndarray \<Rightarrow> ndarray \<Rightarrow> ndarray option \<Rightarrow>
   ndarray option \<Rightarrow> rng \<Rightarrow> error + (ndarray \<times> rng)" where
  "sim_data h cfg im mp mk noise ksp g =
     bindE (sim_pre h cfg im mp mk noise ksp g) (\<lambda>(ou, g').
     bindE (output_transform h cfg mp ou) (\<lambda>ou'. Inr (ou', g')))"

text \<open>The storage read of \<open>_load_data\<close>: image-domain mode under inverse crime, k-space
  mode otherwise. Only the latter gives \<open>ksp\<close> a value.\<close>

definition load_raw ::
  "config \<Rightarrow> store \<Rightarrow> store \<Rightarrow> nat \<Rightarrow>
   error + (ndarray \<times> ndarray \<times> ndarray \<times> ndarray option \<times> ndarray option \<times> ndarray)" where
  "load_raw cfg data_file masks_file idx =
     (if inverse_crime cfg then
        bindE (load_data idx data_file masks_file) (\<lambda>(im, mp, mk, noise, lm).
          Inr (im, mp, mk, None, noise, lm))
      else
        bindE (load_data_ksp idx data_file masks_file) (\<lambda>(im, mp, mk, ks, noise, lm).
          Inr (im, mp, mk, Some ks, noise, lm)))"

text \<open>The scaling step of \<open>_load_data\<close> (lines 120 to 125). The assertion stands inside
  the branch it negates.\<close>

definition scale_step ::
  "config \<Rightarrow> ndarray \<Rightarrow> ndarray option \<Rightarrow> error + (ndarray \<times> ndarray option)" where
  "scale_step cfg im ksp =
     (if scale_data cfg then
        bindE (py_assert (\<not> scale_data cfg) ''SEE FIXME'') (\<lambda>_.
        bindE (percentile99_last2 im) (\<lambda>sc.
        bindE (np_div im sc) (\<lambda>im'.
        bindE (case ksp of None \<Rightarrow> Inl UnboundLocalError | Some k \<Rightarrow> np_div k sc) (\<lambda>k'.
          Inr (im', Some k')))))
      else Inr (im, ksp))"

text \<open>\<open>_load_data\<close>.\<close>

definition self_load_data ::
  "helpers \<Rightarrow> config \<Rightarrow> store \<Rightarrow> store \<Rightarrow> nat \<Rightarrow> rng \<Rightarrow>
   error + ((ndarray \<times> ndarray \<times> ndarray \<times> ndarray \<times> ndarray) \<times> rng)" where
  "self_load_data h cfg data_file masks_file idx g =
     bindE (load_raw cfg data_file masks_file idx) (\<lambda>(im0, mp, mk0, ksp0, noise, lm).
     bindE (scale_step cfg im0 ksp0) (\<lambda>(im, ksp).
       let mk = (if fully_sampled cfg then np_ones (shape mk0) else mk0) in
       bindE (if inverse_crime cfg then
                bindE (py_assert (\<not> noncart cfg) ''FIXME: forward sim of NUFFT'') (\<lambda>_.
                  sim_data h cfg im mp mk noise None g)
              else sim_data h cfg im mp mk noise ksp g) (\<lambda>(ou, g').
         let mp' = (if \<not> noncart cfg then fftmod h mp else mp) in
         Inr ((im, mp', mk, ou, lm), g'))))"

text \<open>The batch-of-one squeeze of \<open>__getitem__\<close> (lines 97 to 102).\<close>

definition squeeze_all ::
  "ndarray \<times> ndarray \<times> ndarray \<times> ndarray \<times> ndarray \<Rightarrow>
   error + (ndarray \<times> ndarray \<times> ndarray \<times> ndarray \<times> ndarray)" where
  "squeeze_all t =
     (case t of (im, mp, mk, ou, lm) \<Rightarrow>
        bindE (shape_at im 0) (\<lambda>n0.
          if n0 = 1 then
            bindE (squeeze0 im) (\<lambda>im'.
            bindE (squeeze0 mp) (\<lambda>mp'.
            bindE (squeeze0 mk) (\<lambda>mk'.
            bindE (squeeze0 ou) (\<lambda>ou'.
            bindE (squeeze0 lm) (\<lambda>lm'. Inr (im', mp', mk', ou', lm'))))))
          else Inr (im, mp, mk, ou, lm)))"

text \<open>\<open>__getitem__\<close>: the index used, the sample, and the generator state left.\<close>

definition self_getitem ::
  "helpers \<Rightarrow> config \<Rightarrow> store \<Rightarrow> store \<Rightarrow> nat \<Rightarrow> rng \<Rightarrow>
   error + ((nat \<times> sample) \<times> rng)" where
  "self_getitem h cfg data_file masks_file idx0 g =
     (let idx = (case data_idx cfg of Some d \<Rightarrow> d | None \<Rightarrow> idx0) in
      bindE (self_load_data h cfg data_file masks_file idx g) (\<lambda>(t, g').
      bindE (squeeze_all t) (\<lambda>(im, mp, mk, ou, lm).
        Inr ((idx, \<lparr>imgs = astype complex64 im,
                    maps = astype complex64 mp,
                    masks = astype float32 mk,
                    loss_masks = astype float32 lm,
                    out = astype complex64 ou\<rparr>), g'))))"

text \<open>\<open>__len__\<close>, as \<open>__init__\<close> computes it from the image data set, the fixed index
  and the requested number of data sets.\<close>

definition dataset_len :: "store \<Rightarrow> config \<Rightarrow> nat option \<Rightarrow> error + nat" where
  "dataset_len data_file cfg num_data_sets =
     bindE (dataset data_file ''imgs'') (\<lambda>a.
     bindE (shape_at a 0) (\<lambda>max_data_sets.
       Inr (case data_idx cfg of
              Some _ \<Rightarrow> 1
            | None \<Rightarrow> (case num_data_sets of
                         None \<Rightarrow> max_data_sets
                       | Some n \<Rightarrow> min n max_data_sets))))"

text \<open>The store layout of the data model: \<open>M\<close> samples of \<open>Nx \<times> Ny\<close> images with \<open>C\<close>
  coils, k-space unless the configuration is inverse crime, and noise or none.\<close>

definition std_store ::
  "nat \<Rightarrow> nat \<Rightarrow> nat \<Rightarrow> nat \<Rightarrow> config \<Rightarrow> store \<Rightarrow> store \<Rightarrow> bool" where
  "std_store M C Nx Ny cfg data_file masks_file \<longleftrightarrow>
     map_option shape (data_file ''imgs'') = Some [M, Nx, Ny] \<and>
     map_option shape (data_file ''maps'') = Some [M, C, Nx, Ny] \<and>
     (inverse_crime cfg \<or> map_option shape (data_file ''ksp'') = Some [M, C, Nx, Ny]) \<and>
     map_option shape (masks_file ''masks'') = Some [M, Nx, Ny] \<and>
     map_option shape (masks_file ''loss_masks'') = Some [M, Nx, Ny] \<and>
     map_option shape (masks_file ''noise'') \<in> {None, Some [M, C, Nx, Ny]}"

text \<open>Helpers that return an array of the shape of their argument, as the modulation
  and the two transforms do.\<close>

definition shape_preserving :: "helpers \<Rightarrow> bool" where
  "shape_preserving h \<longleftrightarrow>
     (\<forall>a. shape (fftmod h a) = shape a) \<and> (\<forall>a. shape (fft2uc h a) = shape a) \<and>
     (\<forall>a. shape (ifft2uc h a) = shape a)"

section \<open>Reference helpers and sample inputs\<close>

text \<open>
  Modelled from the spec: \<open>fftmod\<close> of \<open>deepinpy.utils.utils\<close>, which is not among
  the sources. The spec calls it a deterministic phase/frequency-shift modulation; the
  shift by half the sampling period is modelled, which changes the sign of the entry at
  \<open>(\<dots>, x, y)\<close> when \<open>x + y\<close> is odd.
\<close>

definition fftmod_ref :: "ndarray \<Rightarrow> ndarray" where
  "fftmod_ref a =
     tabulate (shape a) (\<lambda>idx. (- 1) ^ (last (butlast idx) + last idx) * item a idx)"

definition centred :: "nat \<Rightarrow> nat \<Rightarrow> real" where
  "centred k n = real k - real (n div 2)"

text \<open>
  Modelled from the spec: \<open>fft2uc\<close> and \<open>ifft2uc\<close> of \<open>deepinpy.utils.utils\<close>, which
  are not among the sources. The spec calls them a unitary, centered 2D transform per
  channel and the centered inverse FFT per channel: the orthonormal discrete Fourier
  transform over the last two axes, with the origin at index \<open>n div 2\<close> on both sides.
  The sign of the exponent is \<open>sg\<close>. Arrays of rank below 2 are not meant as arguments.
\<close>

definition dft2c :: "real \<Rightarrow> ndarray \<Rightarrow> ndarray" where
  "dft2c sg a =
     (let r = length (shape a);
          nx = shape a ! (r - 2);
          ny = shape a ! (r - 1)
      in tabulate (shape a) (\<lambda>idx.
           (\<Sum>x\<leftarrow>[0..<nx]. \<Sum>y\<leftarrow>[0..<ny].
              item a (take (r - 2) idx @ [x, y]) *
              cis (sg * 2 * pi *
                   (centred (idx ! (r - 2)) nx * centred x nx / real nx +
                    centred (idx ! (r - 1)) ny * centred y ny / real ny)))
           / complex_of_real (sqrt (real (nx * ny)))))"

definition fft2uc_ref :: "ndarray \<Rightarrow> ndarray" where
  "fft2uc_ref = dft2c (- 1)"

definition ifft2uc_ref :: "ndarray \<Rightarrow> ndarray" where
  "ifft2uc_ref = dft2c 1"

text \<open>
  Modelled from the spec: the operator \<open>get_operator\<close> of the \<open>mrinufft\<close> package
  builds, which is not among the sources. The spec calls it a non-uniform Fourier
  operator parameterized by the mask, read as a trajectory, the coil count and the
  spatial shape: the direct non-uniform discrete Fourier transform of images of size
  \<open>[nx, ny]\<close> at the frequencies \<open>traj[k] = (fx, fy)\<close>, one output row per leading index
  of the input. Any other image size leaves the input as it is.
\<close>

definition nudft_ref :: "ndarray \<Rightarrow> nat list \<Rightarrow> nat \<Rightarrow> ndarray \<Rightarrow> ndarray" where
  "nudft_ref traj shp nc x =
     (case shp of
        [nx, ny] \<Rightarrow>
          tabulate (take (length (shape x) - 2) (shape x) @ take 1 (shape traj))
            (\<lambda>idx. \<Sum>px\<leftarrow>[0..<nx]. \<Sum>py\<leftarrow>[0..<ny].
               item x (butlast idx @ [px, py]) *
               cis (- 2 * pi *
                    (Re (item traj [last idx, 0]) * centred px nx +
                     Re (item traj [last idx, 1]) * centred py ny)))
      | _ \<Rightarrow> x)"

definition ref_helpers :: helpers where
  "ref_helpers = \<lparr>fftmod = fftmod_ref, fft2uc = fft2uc_ref, ifft2uc = ifft2uc_ref,
                   get_operator = nudft_ref\<rparr>"

text \<open>A store of one sample: a \<open>1 \<times> 2\<close> image, two coils, its k-space, a mask and a loss
  mask; no noise.\<close>

definition ex_data_file :: store where
  "ex_data_file =
     [''imgs'' \<mapsto> mk_array [1, 1, 2] [1, 1],
      ''maps'' \<mapsto> mk_array [1, 2, 1, 2] [1, 1, \<i>, 1],
      ''ksp'' \<mapsto> mk_array [1, 2, 1, 2] [1, 1, 2, 0]]"

definition ex_masks_file :: store where
  "ex_masks_file =
     [''masks'' \<mapsto> mk_array [1, 1, 2] [1, 1],
      ''loss_masks'' \<mapsto> mk_array [1, 1, 2] [1, 0]]"

definition ex_rng :: rng where
  "ex_rng = (\<lambda>k. real k)"

definition ex_config :: config where
  "ex_config = \<lparr>stdev = 1 / 100, adjoint_data = True, scale_data = False,
                 fully_sampled = False, data_idx = None, inverse_crime = False,
                 noncart = False\<rparr>"

text \<open>A batch of two samples with \<open>1 \<times> 1\<close> images, for direct calls of \<open>_sim_data\<close>:
  the mask keeps sample 0 and drops sample 1. The coil maps, k-space and noise come with
  two and with three coils.\<close>

definition ex_batch_imgs :: ndarray where
  "ex_batch_imgs = mk_array [2, 1, 1] [1, 2]"

definition ex_batch_masks :: ndarray where
  "ex_batch_masks = mk_array [2, 1, 1] [1, 0]"

definition ex_batch_maps2 :: ndarray where
  "ex_batch_maps2 = mk_array [2, 2, 1, 1] [1, \<i>, 1, 1]"

definition ex_batch_maps2b :: ndarray where
  "ex_batch_maps2b = mk_array [2, 2, 1, 1] [\<i>, 2, 0, 1]"

definition ex_batch_ksp2 :: ndarray where
  "ex_batch_ksp2 = mk_array [2, 2, 1, 1] [1, 2, 3, 4]"

definition ex_batch_noise2 :: ndarray where
  "ex_batch_noise2 = mk_array [2, 2, 1, 1] [1, 1, 1, 1]"

definition ex_batch_maps3 :: ndarray where
  "ex_batch_maps3 = mk_array [2, 3, 1, 1] [1, 1, 1, 1, 1, 1]"

definition ex_batch_ksp3 :: ndarray where
  "ex_batch_ksp3 = mk_array [2, 3, 1, 1] [1, 2, 3, 4, 5, 6]"

definition ex_batch_noise3 :: ndarray where
  "ex_batch_noise3 = mk_array [2, 3, 1, 1] [0, 0, 0, 0, 0, 0]"

text \<open>Trajectories for the non-Cartesian mode: one sample of two frequencies, and a
  batch of two samples whose first sample is the same.\<close>

definition ex_traj :: ndarray where
  "ex_traj = mk_array [1, 2, 2] [0, 0, 1 / 4, 1 / 4]"


text \<open>The mask store with a precomputed noise data set, and a second generator state.\<close>

definition ex_masks_file_noise :: store where
  "ex_masks_file_noise = ex_masks_file(''noise'' \<mapsto> mk_array [1, 2, 1, 2] [0, 1, \<i>, 1])"

definition ex_rng0 :: rng where
  "ex_rng0 = (\<lambda>k. 0)"

text \<open>A store whose single sample is itself a batch of one: every data set has one more
  axis, of length 1, after the sample axis.\<close>

definition ex_b1_data_file :: store where
  "ex_b1_data_file =
     [''imgs'' \<mapsto> mk_array [1, 1, 1, 2] [1, 1],
      ''maps'' \<mapsto> mk_array [1, 1, 2, 1, 2] [1, 1, \<i>, 1],
      ''ksp'' \<mapsto> mk_array [1, 1, 2, 1, 2] [1, 1, 2, 0]]"

definition ex_b1_masks_file :: store where
  "ex_b1_masks_file =
     [''masks'' \<mapsto> mk_array [1, 1, 1, 2] [1, 0],
      ''loss_masks'' \<mapsto> mk_array [1, 1, 1, 2] [1, 0]]"

text \<open>A store whose single sample is a batch of two \<open>1 \<times> 1\<close> images with three
  coils.\<close>

definition ex_b2_data_file :: store where
  "ex_b2_data_file =
     [''imgs'' \<mapsto> mk_array [1, 2, 1, 1] [1, 2],
      ''maps'' \<mapsto> mk_array [1, 2, 3, 1, 1] [1, 1, 1, 1, 1, 1],
      ''ksp'' \<mapsto> mk_array [1, 2, 3, 1, 1] [1, 2, 3, 4, 5, 6]]"

definition ex_b2_masks_file :: store where
  "ex_b2_masks_file =
     [''masks'' \<mapsto> mk_array [1, 2, 1, 1] [1, 0],
      ''loss_masks'' \<mapsto> mk_array [1, 2, 1, 1] [1, 1]]"

text \<open>What a call returns, without the generator state it leaves behind.\<close>

definition result_of :: "error + ('a \<times> rng) \<Rightarrow> error + 'a" where
  "result_of r = map_sum id fst r"

text \<open>The sample a call of \<open>__getitem__\<close> returns, if it returns one.\<close>

definition sample_of :: "error + ((nat \<times> sample) \<times> rng) \<Rightarrow> sample option" where
  "sample_of r = (case r of Inl e \<Rightarrow> None | Inr ((i, d), g) \<Rightarrow> Some d)"

text \<open>The mask as the storage reader gets it from the store, before a batch axis is
  added: \<open>masks[idx]\<close>, or the whole of \<open>mask_traj_<idx>\<close> in k-space mode when the
  store has no \<open>masks\<close>.\<close>

definition loaded_mask :: "config \<Rightarrow> store \<Rightarrow> nat \<Rightarrow> error + ndarray" where
  "loaded_mask cfg masks_file idx =
     (if inverse_crime cfg \<or> ''masks'' \<in> dom masks_file
      then read_at masks_file ''masks'' idx float32
      else bindE (dataset masks_file (''mask_traj_'' @ str_nat idx))
             (\<lambda>a. Inr (cast float32 a)))"

text \<open>
  \<open>_load_data\<close> as the specification words it, for comparison with
  \<open>self_load_data\<close>: unless non-Cartesian, the maps are passed through \<open>fftmod\<close> before
  use, so that the simulation consumes the modulated maps.
\<close>

definition load_data_modulated_first ::
  "helpers \<Rightarrow> config \<Rightarrow> store \<Rightarrow> store \<Rightarrow> nat \<Rightarrow> rng \<Rightarrow>
   error + ((ndarray \<times> ndarray \<times> ndarray \<times> ndarray \<times> ndarray) \<times> rng)" where
  "load_data_modulated_first h cfg data_file masks_file idx g =
     bindE (load_raw cfg data_file masks_file idx) (\<lambda>(im0, mp0, mk0, ksp0, noise, lm).
     bindE (scale_step cfg im0 ksp0) (\<lambda>(im, ksp).
       let mk = (if fully_sampled cfg then np_ones (shape mk0) else mk0);
           mp = (if \<not> noncart cfg then fftmod h mp0 else mp0) in
       bindE (if inverse_crime cfg then
                bindE (py_assert (\<not> noncart cfg) ''FIXME: forward sim of NUFFT'') (\<lambda>_.
                  sim_data h cfg im mp mk noise None g)
              else sim_data h cfg im mp mk noise ksp g) (\<lambda>(ou, g').
         Inr ((im, mp, mk, ou, lm), g'))))"

section \<open>Basic facts about arrays\<close>

lemma length_indices: "length (indices s) = prod_list s"
proof (induction s)
  case Nil
  show ?case by simp
next
  case (Cons n s)
  have "length (concat (map (\<lambda>i. map ((#) i) (indices s)) [0..<n])) = n * prod_list s"
    by (simp add: length_concat comp_def Cons.IH sum_list_triv)
  then show ?case by simp
qed

lemma nth_concat_uniform:
  assumes "\<forall>xs \<in> set xss. length xs = m" and "i < length xss" and "r < m"
  shows "concat xss ! (i * m + r) = xss ! i ! r"
  using assms
proof (induction xss arbitrary: i)
  case Nil
  then show ?case by simp
next
  case (Cons xs xss)
  show ?case
  proof (cases i)
    case 0
    with Cons.prems show ?thesis by (simp add: nth_append)
  next
    case (Suc j)
    with Cons.prems have "concat xss ! (j * m + r) = xss ! j ! r"
      by (intro Cons.IH) auto
    with Suc Cons.prems show ?thesis by (simp add: nth_append add.assoc)
  qed
qed

lemma ravel_lt: "in_range idx s \<Longrightarrow> ravel s idx < prod_list s"
proof (induction s idx rule: ravel.induct)
  case (1 n ns i "is")
  then have i: "i < n" and r: "ravel ns is < prod_list ns"
    by (auto simp: in_range_def)
  have "i * prod_list ns + ravel ns is < (i + 1) * prod_list ns"
    using r by simp
  also have "\<dots> \<le> n * prod_list ns"
    using i by (intro mult_le_mono1) simp
  finally show ?case by simp
qed (auto simp: in_range_def)

lemma nth_indices: "in_range idx s \<Longrightarrow> indices s ! ravel s idx = idx"
proof (induction s idx rule: ravel.induct)
  case (1 n ns i "is")
  then have i: "i < n" and rng: "in_range is ns"
    by (auto simp: in_range_def)
  have r: "ravel ns is < prod_list ns" using rng by (rule ravel_lt)
  have ih: "indices ns ! ravel ns is = is" using 1 rng by simp
  let ?xss = "map (\<lambda>i. map ((#) i) (indices ns)) [0..<n]"
  have "concat ?xss ! (i * prod_list ns + ravel ns is) = ?xss ! i ! ravel ns is"
    by (rule nth_concat_uniform) (use i r in \<open>auto simp: length_indices\<close>)
  also have "\<dots> = i # is"
    using i r ih by (simp add: length_indices)
  finally show ?case by simp
qed (auto simp: in_range_def)

lemma shape_tabulate [simp]: "shape (tabulate s f) = s"
  by (simp add: tabulate_def)

lemma item_tabulate [simp]: "in_range idx s \<Longrightarrow> item (tabulate s f) idx = f idx"
  using ravel_lt[of idx s] nth_indices[of idx s]
  by (simp add: item_def tabulate_def length_indices)

lemmas ex_store_defs =
  ex_data_file_def ex_masks_file_def mk_array_def dom_def

lemmas reader_defs =
  load_raw_def load_data_def load_data_ksp_def read_at_def read_noise_def dataset_def
  index0_def cast_def add_axis0_def

lemma in_range_Cons [simp]: "in_range (i # idx) (n # s) \<longleftrightarrow> i < n \<and> in_range idx s"
  by (simp add: in_range_def)

lemma in_range_Nil [simp]: "in_range [] []"
  by (simp add: in_range_def)

lemma broadcast_rev_same: "broadcast_rev xs xs = Some xs"
  by (induction xs) auto

lemma broadcast_shapes_same [simp]: "broadcast_shapes s s = Some s"
  by (simp add: broadcast_shapes_def broadcast_rev_same)

lemma bcast_index_same: "in_range idx shp \<Longrightarrow> bcast_index shp idx = idx"
  unfolding in_range_def bcast_index_def
proof (induction idx shp rule: list_all2_induct)
  case Nil
  show ?case by simp
next
  case (Cons i idx d shp)
  from Cons have "length idx = length shp" by (simp add: list_all2_lengthD)
  with Cons show ?case by auto
qed

text \<open>Two operands of one shape: the operation is entrywise.\<close>

lemma binop_same:
  assumes "shape a = s" and "shape b = s"
  shows "\<exists>p. binop f a b = Inr p \<and> shape p = s \<and>
             (\<forall>idx. in_range idx s \<longrightarrow> item p idx = f (item a idx) (item b idx))"
  using assms by (simp add: binop_def bcast_index_same)

text \<open>An operand with a second axis of length 1 against one with \<open>C\<close> channels: entry
  \<open>[n, 0, x, y]\<close> of the first meets every channel of sample \<open>n\<close>.\<close>

lemma broadcast_axis1:
  "broadcast_shapes [N, Suc 0, Nx, Ny] [N, C, Nx, Ny] = Some [N, C, Nx, Ny]"
  by (auto simp: broadcast_shapes_def)

lemma bcast_index_axis1:
  "n < N \<Longrightarrow> x < Nx \<Longrightarrow> y < Ny \<Longrightarrow>
   bcast_index [N, Suc 0, Nx, Ny] [n, c, x, y] = [n, 0, x, y]"
  by (auto simp: bcast_index_def)

lemma binop_axis1:
  assumes "shape a = [N, 1, Nx, Ny]" and "shape b = [N, C, Nx, Ny]"
  shows "\<exists>p. binop f a b = Inr p \<and> shape p = [N, C, Nx, Ny] \<and>
             (\<forall>n<N. \<forall>c<C. \<forall>x<Nx. \<forall>y<Ny.
                item p [n, c, x, y] = f (item a [n, 0, x, y]) (item b [n, c, x, y]))"
  using assms
  by (simp add: binop_def broadcast_axis1 bcast_index_axis1 bcast_index_same)

lemma add_axis1_3:
  assumes "shape a = [N, Nx, Ny]"
  shows "\<exists>b. add_axis1 a = Inr b \<and> shape b = [N, 1, Nx, Ny] \<and>
             (\<forall>n x y. item b [n, 0, x, y] = item a [n, x, y])"
  using assms by (simp add: add_axis1_def item_def)

lemma shape_scalar_mul [simp]: "shape (scalar_mul c a) = shape a"
  by (simp add: scalar_mul_def)

lemma item_scalar_mul [simp]:
  "in_range idx (shape a) \<Longrightarrow> item (scalar_mul c a) idx = complex_of_real c * item a idx"
  by (simp add: scalar_mul_def)

lemma shape_complex_randn [simp]: "shape (fst (complex_randn shp g)) = shp"
  by (simp add: complex_randn_def randn_def Let_def)

lemma shape_noise_or_randn:
  "(\<forall>nz. noise = Some nz \<longrightarrow> shape nz = shp) \<Longrightarrow>
   shape (fst (noise_or_randn noise shp g)) = shp"
  by (cases noise) (simp_all add: noise_or_randn_def)

lemma shape_dft2c [simp]: "shape (dft2c sg a) = shape a"
  by (simp add: dft2c_def Let_def)

lemma bindE_Inl [simp]: "bindE (Inl e) f = Inl e"
  by (simp add: bindE_def)

lemma bindE_Inr [simp]: "bindE (Inr x) f = f x"
  by (simp add: bindE_def)

lemmas ex_batch_defs =
  ex_batch_imgs_def ex_batch_masks_def ex_batch_maps2_def ex_batch_maps2b_def
  ex_batch_ksp2_def
  ex_batch_noise2_def ex_batch_maps3_def ex_batch_ksp3_def ex_batch_noise3_def mk_array_def

lemmas sim_defs =
  self_getitem_def self_load_data_def scale_step_def sim_data_def sim_pre_def
  output_transform_def squeeze_all_def squeeze0_def shape_at_def np_mul_def np_add_def
  binop_def broadcast_shapes_def sum_axis1_def noise_or_randn_def astype_def

lemma shape_np_conj [simp]: "shape (np_conj a) = shape a"
  by (simp add: np_conj_def)

lemma item_np_conj [simp]:
  "in_range idx (shape a) \<Longrightarrow> item (np_conj a) idx = cnj (item a idx)"
  by (simp add: np_conj_def)

lemma shape_fftmod_ref [simp]: "shape (fftmod_ref a) = shape a"
  by (simp add: fftmod_ref_def)

lemma ref_helpers_simps [simp]:
  "fftmod ref_helpers = fftmod_ref" "fft2uc ref_helpers = dft2c (- 1)"
  "ifft2uc ref_helpers = dft2c 1" "get_operator ref_helpers = nudft_ref"
  by (simp_all add: ref_helpers_def fft2uc_ref_def ifft2uc_ref_def)

lemma item_record: "item \<lparr>shape = s, data = d\<rparr> idx = d ! ravel s idx"
  by (simp add: item_def)

lemma upt2 [simp]: "[0..<2] = [0, 1]"
  by (simp add: upt_rec)

section \<open>The Cartesian forward model\<close>

text \<open>
  C5. Cartesian inverse-crime mode, on a batch of \<open>N\<close> images of size \<open>Nx \<times> Ny\<close> with
  \<open>C\<close> coils, for any \<open>fft2uc\<close> that keeps the shape of its argument. Before the
  output transform \<open>_sim_data\<close> holds an array \<open>ou\<close> of shape \<open>[N, C, Nx, Ny]\<close>: the
  transform is applied to the coil images \<open>p[n, c] = imgs[n] * maps[n, c]\<close>, the noise
  (the one given, or the one drawn with the shape of the maps) is added with the factor
  \<open>stdev / sqrt 2\<close>, and every channel of sample \<open>n\<close> is multiplied by the mask of
  sample \<open>n\<close>.
\<close>

theorem cartesian_inverse_crime_sim:
  assumes cart: "\<not> noncart cfg" and ic: "inverse_crime cfg"
    and im: "shape im = [N, Nx, Ny]" and mp: "shape mp = [N, C, Nx, Ny]"
    and mk: "shape mk = [N, Nx, Ny]"
    and nz: "\<forall>a. noise = Some a \<longrightarrow> shape a = [N, C, Nx, Ny]"
    and fft: "\<forall>a. shape (fft2uc h a) = shape a"
  shows "\<exists>ou p. sim_pre h cfg im mp mk noise None g
                   = Inr (ou, snd (noise_or_randn noise (shape mp) g)) \<and>
          shape ou = [N, C, Nx, Ny] \<and> shape p = [N, C, Nx, Ny] \<and>
          (\<forall>n<N. \<forall>c<C. \<forall>x<Nx. \<forall>y<Ny.
             item p [n, c, x, y] = item im [n, x, y] * item mp [n, c, x, y] \<and>
             item ou [n, c, x, y] =
               item mk [n, x, y] *
                 (item (fft2uc h p) [n, c, x, y] +
                  complex_of_real (stdev cfg / sqrt 2) *
                    item (fst (noise_or_randn noise (shape mp) g)) [n, c, x, y]))"
proof -
  obtain nz' g' where ng: "noise_or_randn noise (shape mp) g = (nz', g')"
    by (cases "noise_or_randn noise (shape mp) g")
  have snz: "shape nz' = [N, C, Nx, Ny]"
    using shape_noise_or_randn[of noise "[N, C, Nx, Ny]" g] nz ng mp by simp
  obtain m1 where m1: "add_axis1 mk = Inr m1" "shape m1 = [N, 1, Nx, Ny]"
      "\<And>n x y. item m1 [n, 0, x, y] = item mk [n, x, y]"
    using add_axis1_3[OF mk] by blast
  obtain i1 where i1: "add_axis1 im = Inr i1" "shape i1 = [N, 1, Nx, Ny]"
      "\<And>n x y. item i1 [n, 0, x, y] = item im [n, x, y]"
    using add_axis1_3[OF im] by blast
  obtain p where p: "np_mul i1 mp = Inr p" "shape p = [N, C, Nx, Ny]"
      "\<And>n c x y. n < N \<Longrightarrow> c < C \<Longrightarrow> x < Nx \<Longrightarrow> y < Ny \<Longrightarrow>
         item p [n, c, x, y] = item i1 [n, 0, x, y] * item mp [n, c, x, y]"
    using binop_axis1[OF i1(2) mp, of "(*)"] unfolding np_mul_def by blast
  have sF: "shape (fft2uc h p) = [N, C, Nx, Ny]" using fft p(2) by simp
  have ssn: "shape (scalar_mul (noise_scale cfg) nz') = [N, C, Nx, Ny]"
    using snz by simp
  obtain s where s: "np_add (fft2uc h p) (scalar_mul (noise_scale cfg) nz') = Inr s"
      "shape s = [N, C, Nx, Ny]"
      "\<And>idx. in_range idx [N, C, Nx, Ny] \<Longrightarrow>
         item s idx = item (fft2uc h p) idx + item (scalar_mul (noise_scale cfg) nz') idx"
    using binop_same[OF sF ssn, of "(+)"] unfolding np_add_def by blast
  obtain ou where ou: "np_mul m1 s = Inr ou" "shape ou = [N, C, Nx, Ny]"
      "\<And>n c x y. n < N \<Longrightarrow> c < C \<Longrightarrow> x < Nx \<Longrightarrow> y < Ny \<Longrightarrow>
         item ou [n, c, x, y] = item m1 [n, 0, x, y] * item s [n, c, x, y]"
    using binop_axis1[OF m1(2) s(2), of "(*)"] unfolding np_mul_def by blast
  have run: "sim_pre h cfg im mp mk noise None g = Inr (ou, g')"
    using cart ic ng m1(1) i1(1) p(1) s(1) ou(1) by (simp add: sim_pre_def)
  have sc: "noise_scale cfg = stdev cfg / sqrt 2"
    by (simp add: noise_scale_def)
  show ?thesis
    apply (rule exI[of _ ou], rule exI[of _ p])
    using run ng ou(2) p(2)
    by (simp add: ou(3) s(3) p(3) m1(3) i1(3) snz sc)
qed

theorem cartesian_inverse_crime_sim_witness:
  "\<not> noncart (ex_config\<lparr>inverse_crime := True\<rparr>) \<and>
   inverse_crime (ex_config\<lparr>inverse_crime := True\<rparr>) \<and>
   shape ex_batch_imgs = [2, 1, 1] \<and> shape ex_batch_maps2 = [2, 2, 1, 1] \<and>
   shape ex_batch_masks = [2, 1, 1] \<and> shape ex_batch_noise2 = [2, 2, 1, 1] \<and>
   (\<forall>a. shape (fft2uc ref_helpers a) = shape a) \<and>
   (\<exists>ou p. sim_pre ref_helpers (ex_config\<lparr>inverse_crime := True\<rparr>) ex_batch_imgs
              ex_batch_maps2 ex_batch_masks (Some ex_batch_noise2) None ex_rng
            = Inr (ou, ex_rng) \<and>
          shape ou = [2, 2, 1, 1] \<and> shape p = [2, 2, 1, 1] \<and>
          item p [1, 0, 0, 0] = 2 \<and>
          item ou [0, 1, 0, 0] =
            item (fft2uc ref_helpers p) [0, 1, 0, 0] + complex_of_real (1 / 100 / sqrt 2) \<and>
          item ou [1, 0, 0, 0] = 0)"
proof -
  let ?cfg = "ex_config\<lparr>inverse_crime := True\<rparr>"
  have h1: "\<not> noncart ?cfg" and h2: "inverse_crime ?cfg"
    by (simp_all add: ex_config_def)
  have h3: "shape ex_batch_imgs = [2, 1, 1]" and h4: "shape ex_batch_maps2 = [2, 2, 1, 1]"
    and h5: "shape ex_batch_masks = [2, 1, 1]"
    and h6: "\<forall>a. Some ex_batch_noise2 = Some a \<longrightarrow> shape a = [2, 2, 1, 1]"
    and h6': "shape ex_batch_noise2 = [2, 2, 1, 1]"
    by (simp_all add: ex_batch_defs)
  have h7: "\<forall>a. shape (fft2uc ref_helpers a) = shape a"
    by (simp add: ref_helpers_def fft2uc_ref_def)
  obtain ou p where r: "sim_pre ref_helpers ?cfg ex_batch_imgs ex_batch_maps2 ex_batch_masks
         (Some ex_batch_noise2) None ex_rng
       = Inr (ou, snd (noise_or_randn (Some ex_batch_noise2) (shape ex_batch_maps2) ex_rng))"
     "shape ou = [2, 2, 1, 1]" "shape p = [2, 2, 1, 1]"
     "\<forall>n<2. \<forall>c<2. \<forall>x<1. \<forall>y<1.
             item p [n, c, x, y] = item ex_batch_imgs [n, x, y] * item ex_batch_maps2 [n, c, x, y] \<and>
             item ou [n, c, x, y] =
               item ex_batch_masks [n, x, y] *
                 (item (fft2uc ref_helpers p) [n, c, x, y] +
                  complex_of_real (stdev ?cfg / sqrt 2) *
                    item (fst (noise_or_randn (Some ex_batch_noise2) (shape ex_batch_maps2) ex_rng)) [n, c, x, y])"
    using cartesian_inverse_crime_sim[OF h1 h2 h3 h4 h5 h6 h7, of ex_rng] by blast
  have a: "item p [1, 0, 0, 0] = 2"
    using r(4) by (simp add: item_def ex_batch_defs)
  have b: "item ou [0, 1, 0, 0] =
            item (fft2uc ref_helpers p) [0, 1, 0, 0] + complex_of_real (1 / 100 / sqrt 2)"
    using r(4) by (simp add: item_def ex_batch_defs noise_or_randn_def ex_config_def)
  have c: "item ou [1, 0, 0, 0] = 0"
    using r(4) by (simp add: item_def ex_batch_defs)
  show ?thesis
    using h1 h2 h3 h4 h5 h6' h7 r(1,2,3) a b c
    by (auto simp: noise_or_randn_def)
qed

text \<open>The branch on stored k-space. For a single sample (\<open>N = 1\<close>) the mask of the
  sample multiplies each of its channels; for \<open>N > 1\<close> samples and \<open>C > 1\<close> coils with
  \<open>N \<noteq> C\<close> the product cannot be broadcast.\<close>

lemma shape_cast [simp]: "shape (cast dt a) = shape a"
  by (cases dt) (simp_all add: cast_def)

lemma shape_add_axis0 [simp]: "shape (add_axis0 a) = 1 # shape a"
  by (simp add: add_axis0_def)

lemma item_add_axis0:
  "shape a = [N, Nx, Ny] \<Longrightarrow> item (add_axis0 a) [0, n, x, y] = item a [n, x, y]"
  by (simp add: add_axis0_def item_def)

lemma cartesian_ksp_single_sample:
  assumes cart: "\<not> noncart cfg" and ic: "\<not> inverse_crime cfg"
    and mp: "shape mp = [1, C, Nx, Ny]" and mk: "shape mk = [1, Nx, Ny]"
    and k: "shape k = [1, C, Nx, Ny]"
    and nz: "\<forall>a. noise = Some a \<longrightarrow> shape a = [1, C, Nx, Ny]"
  shows "\<exists>ou. sim_pre h cfg im mp mk noise (Some k) g
                = Inr (ou, snd (noise_or_randn noise (shape mp) g)) \<and>
          shape ou = [1, C, Nx, Ny] \<and>
          (\<forall>c<C. \<forall>x<Nx. \<forall>y<Ny.
             item ou [0, c, x, y] =
               item mk [0, x, y] *
                 (item k [0, c, x, y] +
                  complex_of_real (stdev cfg / sqrt 2) *
                    item (fst (noise_or_randn noise (shape mp) g)) [0, c, x, y]))"
proof -
  obtain nz' g' where ng: "noise_or_randn noise (shape mp) g = (nz', g')"
    by (cases "noise_or_randn noise (shape mp) g")
  have snz: "shape nz' = [1, C, Nx, Ny]"
    using shape_noise_or_randn[of noise "[1, C, Nx, Ny]" g] nz ng mp by simp
  have ssn: "shape (scalar_mul (noise_scale cfg) nz') = [1, C, Nx, Ny]"
    using snz by simp
  obtain s where s: "np_add k (scalar_mul (noise_scale cfg) nz') = Inr s"
      "shape s = [1, C, Nx, Ny]"
      "\<And>idx. in_range idx [1, C, Nx, Ny] \<Longrightarrow>
         item s idx = item k idx + item (scalar_mul (noise_scale cfg) nz') idx"
    using binop_same[OF k ssn, of "(+)"] unfolding np_add_def by blast
  have sm: "shape (add_axis0 mk) = [1, 1, Nx, Ny]" using mk by simp
  obtain ou where ou: "np_mul (add_axis0 mk) s = Inr ou" "shape ou = [1, C, Nx, Ny]"
      "\<forall>n<1. \<forall>c<C. \<forall>x<Nx. \<forall>y<Ny.
         item ou [n, c, x, y] = item (add_axis0 mk) [n, 0, x, y] * item s [n, c, x, y]"
    using binop_axis1[OF sm s(2), of "(*)"] unfolding np_mul_def by blast
  have run: "sim_pre h cfg im mp mk noise (Some k) g = Inr (ou, g')"
    using cart ic ng s(1) ou(1) by (simp add: sim_pre_def)
  have sc: "noise_scale cfg = stdev cfg / sqrt 2"
    by (simp add: noise_scale_def)
  show ?thesis
    apply (rule exI[of _ ou])
    using run ng ou(2) ou(3)
    by (simp add: s(3) item_add_axis0[OF mk] snz sc)
qed

lemma cartesian_ksp_batch_fails:
  assumes cart: "\<not> noncart cfg" and ic: "\<not> inverse_crime cfg"
    and mp: "shape mp = [N, C, Nx, Ny]" and mk: "shape mk = [N, Nx, Ny]"
    and k: "shape k = [N, C, Nx, Ny]"
    and nz: "\<forall>a. noise = Some a \<longrightarrow> shape a = [N, C, Nx, Ny]"
    and ne: "N \<noteq> 1" "C \<noteq> 1" "N \<noteq> C"
  shows "sim_pre h cfg im mp mk noise (Some k) g = Inl ValueError"
proof -
  obtain nz' g' where ng: "noise_or_randn noise (shape mp) g = (nz', g')"
    by (cases "noise_or_randn noise (shape mp) g")
  have snz: "shape nz' = [N, C, Nx, Ny]"
    using shape_noise_or_randn[of noise "[N, C, Nx, Ny]" g] nz ng mp by simp
  have ssn: "shape (scalar_mul (noise_scale cfg) nz') = [N, C, Nx, Ny]"
    using snz by simp
  obtain s where s: "np_add k (scalar_mul (noise_scale cfg) nz') = Inr s"
      "shape s = [N, C, Nx, Ny]"
    using binop_same[OF k ssn, of "(+)"] unfolding np_add_def by blast
  have "np_mul (add_axis0 mk) s = Inl ValueError"
    using mk s(2) ne by (simp add: np_mul_def binop_def broadcast_shapes_def)
  then show ?thesis
    using cart ic ng s(1) by (simp add: sim_pre_def)
qed

text \<open>
  C2. Cartesian mode on stored k-space multiplies by \<open>masks[None, ...]\<close>, of shape
  \<open>[1, N, Nx, Ny]\<close>, where the inverse-crime branch uses \<open>masks[:, None, :, :]\<close>. The
  mask axis therefore meets the channel axis of \<open>ksp\<close>. With two samples and three coils
  the product cannot be broadcast and \<open>_sim_data\<close> raises; with two samples and two
  coils it returns, and channel 1 of sample 0 has been multiplied by the mask of sample 1
  (which is 0) and not by the mask of sample 0 (which is 1). \<open>__getitem__\<close> on a store
  whose sample is a batch of two with three coils raises likewise, and returns a sample
  under inverse crime.
\<close>

theorem cartesian_ksp_mask_broadcast:
  "sim_pre ref_helpers ex_config ex_batch_imgs ex_batch_maps3 ex_batch_masks
       (Some ex_batch_noise3) (Some ex_batch_ksp3) ex_rng = Inl ValueError
   \<and> (\<exists>ou. sim_pre ref_helpers ex_config ex_batch_imgs ex_batch_maps2 ex_batch_masks
               (Some ex_batch_noise2) (Some ex_batch_ksp2) ex_rng = Inr (ou, ex_rng)
           \<and> item ou [0, 1, 0, 0] = 0
           \<and> item ex_batch_masks [0, 0, 0] *
               (item ex_batch_ksp2 [0, 1, 0, 0] +
                complex_of_real (stdev ex_config / sqrt 2) * item ex_batch_noise2 [0, 1, 0, 0])
             = 2 + complex_of_real (1 / 100 / sqrt 2))
   \<and> self_getitem ref_helpers ex_config ex_b2_data_file ex_b2_masks_file 0 ex_rng
       = Inl ValueError
   \<and> sample_of (self_getitem ref_helpers (ex_config\<lparr>inverse_crime := True\<rparr>)
                  ex_b2_data_file ex_b2_masks_file 0 ex_rng) \<noteq> None"
proof (intro conjI)
  show "sim_pre ref_helpers ex_config ex_batch_imgs ex_batch_maps3 ex_batch_masks
          (Some ex_batch_noise3) (Some ex_batch_ksp3) ex_rng = Inl ValueError"
    by (simp add: sim_pre_def ex_config_def noise_or_randn_def np_add_def np_mul_def binop_def
          ex_batch_defs add_axis0_def broadcast_shapes_def)
  show "\<exists>ou. sim_pre ref_helpers ex_config ex_batch_imgs ex_batch_maps2 ex_batch_masks
               (Some ex_batch_noise2) (Some ex_batch_ksp2) ex_rng = Inr (ou, ex_rng)
           \<and> item ou [0, 1, 0, 0] = 0
           \<and> item ex_batch_masks [0, 0, 0] *
               (item ex_batch_ksp2 [0, 1, 0, 0] +
                complex_of_real (stdev ex_config / sqrt 2) * item ex_batch_noise2 [0, 1, 0, 0])
             = 2 + complex_of_real (1 / 100 / sqrt 2)"
    by (simp add: sim_pre_def ex_config_def noise_or_randn_def np_add_def np_mul_def binop_def
          ex_batch_defs add_axis0_def broadcast_shapes_def bcast_index_def item_record)
  show "self_getitem ref_helpers ex_config ex_b2_data_file ex_b2_masks_file 0 ex_rng
          = Inl ValueError"
    by (simp add: sim_defs reader_defs ex_b2_data_file_def ex_b2_masks_file_def mk_array_def
          dom_def ex_config_def split_def Let_def)
  show "sample_of (self_getitem ref_helpers (ex_config\<lparr>inverse_crime := True\<rparr>)
                  ex_b2_data_file ex_b2_masks_file 0 ex_rng) \<noteq> None"
    by (simp add: sample_of_def sim_defs reader_defs ex_b2_data_file_def ex_b2_masks_file_def
          mk_array_def dom_def ex_config_def split_def Let_def add_axis1_def py_assert_def)
qed

section \<open>The non-Cartesian forward model\<close>

text \<open>In non-Cartesian mode \<open>_sim_data\<close> returns the operator's output, promoted to rank
  3 when its rank is 2, and nothing else happens to it.\<close>

lemma noncart_sim_data:
  assumes "noncart cfg"
  shows "result_of (sim_data h cfg im mp mk noise ksp g) =
           bindE (index0 mk 0) (\<lambda>traj.
           bindE (shape_at mp 1) (\<lambda>nc.
           bindE (case ksp of None \<Rightarrow> Inl TypeError | Some k \<Rightarrow> Inr k) (\<lambda>k.
             let o1 = get_operator h traj (shape_last2 mp) nc (ifft2uc h k)
             in Inr (if length (shape o1) = 2 then add_axis0 o1 else o1))))"
  using assms
  by (auto simp: result_of_def sim_data_def sim_pre_def output_transform_def Let_def bindE_def
           split: sum.splits option.splits prod.splits)

text \<open>
  C1. In non-Cartesian mode the measurement \<open>_sim_data\<close> returns (or the error it
  raises) is the same for every noise level \<open>stdev\<close>, every noise array, given or not,
  and every state of the generator: no noise is added to it.
\<close>

theorem noncart_noise_never_added:
  assumes "noncart cfg"
  shows "result_of (sim_data h (cfg\<lparr>stdev := s\<rparr>) im mp mk noise' ksp g') =
         result_of (sim_data h cfg im mp mk noise ksp g)"
  using assms by (simp add: noncart_sim_data)

theorem noncart_noise_never_added_witness:
  "noncart (ex_config\<lparr>noncart := True\<rparr>) \<and>
   result_of (sim_data ref_helpers (ex_config\<lparr>noncart := True, stdev := 5\<rparr>) ex_batch_imgs
               ex_batch_maps2 ex_traj (Some ex_batch_noise2) (Some ex_batch_ksp2) ex_rng) =
   result_of (sim_data ref_helpers (ex_config\<lparr>noncart := True, stdev := 0\<rparr>) ex_batch_imgs
               ex_batch_maps2 ex_traj None (Some ex_batch_ksp2) ex_rng) \<and>
   result_of (sim_data ref_helpers (ex_config\<lparr>noncart := True, stdev := 5\<rparr>) ex_batch_imgs
               ex_batch_maps2 ex_traj (Some ex_batch_noise2) (Some ex_batch_ksp2) ex_rng) =
     Inr (nudft_ref (mk_array [2, 2] [0, 0, 1 / 4, 1 / 4]) [1, 1] 2
            (ifft2uc_ref ex_batch_ksp2))"
proof -
  have t: "index0 ex_traj 0 = Inr (mk_array [2, 2] [0, 0, 1 / 4, 1 / 4])"
    by (simp add: index0_def ex_traj_def mk_array_def)
  have n: "shape_at ex_batch_maps2 1 = Inr 2"
    by (simp add: shape_at_def ex_batch_defs)
  have s: "shape_last2 ex_batch_maps2 = [1, 1]"
    by (simp add: shape_last2_def ex_batch_defs)
  have r: "length (shape (nudft_ref (mk_array [2, 2] [0, 0, 1 / 4, 1 / 4]) [1, 1] 2
            (ifft2uc_ref ex_batch_ksp2))) \<noteq> 2"
    by (simp add: nudft_ref_def ifft2uc_ref_def ex_batch_defs)
  have v: "result_of (sim_data ref_helpers (ex_config\<lparr>noncart := True, stdev := 0\<rparr>)
               ex_batch_imgs ex_batch_maps2 ex_traj None (Some ex_batch_ksp2) ex_rng) =
     Inr (nudft_ref (mk_array [2, 2] [0, 0, 1 / 4, 1 / 4]) [1, 1] 2
            (ifft2uc_ref ex_batch_ksp2))"
    using t n s r by (simp add: noncart_sim_data ex_config_def ref_helpers_def Let_def)
  show ?thesis
    using noncart_noise_never_added[of "ex_config\<lparr>noncart := True, stdev := 0\<rparr>"
        ref_helpers 5 ex_batch_imgs ex_batch_maps2 ex_traj "Some ex_batch_noise2"
        "Some ex_batch_ksp2" ex_rng None ex_rng] v
    by (simp add: ex_config_def)
qed



section \<open>The sample provider\<close>

lemma bindE_eq_Inr: "bindE r f = Inr y \<longleftrightarrow> (\<exists>x. r = Inr x \<and> f x = Inr y)"
  by (cases r) simp_all

lemma self_load_data_parts:
  assumes "self_load_data h cfg A B idx g = Inr ((im, mp', mk, ou, lm), g')"
  shows "\<exists>im0 mp mk0 ksp0 noise ksp.
           load_raw cfg A B idx = Inr (im0, mp, mk0, ksp0, noise, lm) \<and>
           scale_step cfg im0 ksp0 = Inr (im, ksp) \<and>
           mk = (if fully_sampled cfg then np_ones (shape mk0) else mk0) \<and>
           mp' = (if \<not> noncart cfg then fftmod h mp else mp) \<and>
           sim_data h cfg im mp mk noise (if inverse_crime cfg then None else ksp) g
             = Inr (ou, g')"
  using assms
  by (cases "fully_sampled cfg"; cases "noncart cfg"; cases "inverse_crime cfg")
     (auto simp: self_load_data_def bindE_eq_Inr py_assert_def Let_def)

lemma result_of_simps [simp]:
  "result_of (Inl e) = Inl e" "result_of (Inr (x, g)) = Inr x"
  by (simp_all add: result_of_def)

lemma result_of_bindE: "result_of (bindE r f) = bindE r (\<lambda>x. result_of (f x))"
  by (cases r) simp_all

lemma sim_data_given_noise:
  "result_of (sim_data h cfg im mp mk (Some n) ksp g1) =
   result_of (sim_data h cfg im mp mk (Some n) ksp g2)"
proof -
  have pre: "\<And>g. sim_pre h cfg im mp mk (Some n) ksp g =
              bindE (result_of (sim_pre h cfg im mp mk (Some n) ksp g1)) (\<lambda>ou. Inr (ou, g))"
    by (simp add: sim_pre_def noise_or_randn_def Let_def result_of_bindE bindE_def
             split: option.split sum.split)
  show ?thesis
    unfolding sim_data_def
    by (subst (1 2) pre) (simp add: result_of_bindE bindE_def split: sum.split)
qed

lemma read_noise_Some:
  "read_noise F idx dt = Inr noise \<Longrightarrow> ''noise'' \<in> dom F \<Longrightarrow> noise \<noteq> None"
  unfolding read_noise_def by (cases "read_at F ''noise'' idx dt") auto

lemma bindE_InrE:
  assumes "bindE r f = Inr y"
  obtains x where "r = Inr x" and "f x = Inr y"
  using assms by (cases r) simp_all

lemma load_data_noise:
  assumes "load_data idx A B = Inr (im, mp, mk, noise, lm)" and "''noise'' \<in> dom B"
  shows "noise \<noteq> None"
  using assms(1) unfolding load_data_def
  apply (elim bindE_InrE)
  apply (drule read_noise_Some[OF _ assms(2)])
  apply (auto split: if_splits)
  done

lemma load_data_ksp_noise:
  assumes "load_data_ksp idx A B = Inr (im, mp, mk, ks, noise, lm)" and "''noise'' \<in> dom B"
  shows "noise \<noteq> None"
  using assms(1) unfolding load_data_ksp_def
  apply (elim bindE_InrE)
  apply (drule read_noise_Some[OF _ assms(2)])
  apply (auto split: if_splits)
  done

lemma load_raw_noise:
  assumes "load_raw cfg A B idx = Inr (im, mp, mk, ksp, noise, lm)" and "''noise'' \<in> dom B"
  shows "noise \<noteq> None"
proof (cases "inverse_crime cfg")
  case True
  with assms(1) show ?thesis
    unfolding load_raw_def
    by (auto elim!: bindE_InrE dest: load_data_noise[OF _ assms(2)])
next
  case False
  with assms(1) show ?thesis
    unfolding load_raw_def
    by (auto elim!: bindE_InrE dest: load_data_ksp_noise[OF _ assms(2)])
qed

lemma squeeze_all_parts:
  assumes "squeeze_all (im, mp, mk, ou, lm) = Inr (a, b, c, d, e)"
    and "squeeze_all (im, mp, mk, ou2, lm) = Inr (a2, b2, c2, d2, e2)"
  shows "a2 = a \<and> b2 = b \<and> c2 = c \<and> e2 = e \<and> (ou2 = ou \<longrightarrow> d2 = d)"
  using assms
  by (auto simp: squeeze_all_def bindE_eq_Inr split: if_splits)

text \<open>On the sample store \<open>__getitem__\<close> returns a sample, whatever the generator
  state, with and without stored noise.\<close>

lemma ex_getitem_noise:
  "\<exists>d g'. self_getitem ref_helpers ex_config ex_data_file ex_masks_file_noise 0 g
             = Inr ((0, d), g')"
  by (simp add: sim_defs reader_defs ex_store_defs ex_config_def ex_masks_file_noise_def
        split_def Let_def)

lemma ex_getitem:
  "\<exists>d g'. self_getitem ref_helpers ex_config ex_data_file ex_masks_file 0 g
             = Inr ((0, d), g')"
  by (simp add: sim_defs reader_defs ex_store_defs ex_config_def split_def Let_def)

text \<open>On a store of the data model's layout, in Cartesian mode without scaling and with
  shape-preserving helpers, \<open>__getitem__\<close> returns a sample for every index below
  \<open>__len__\<close>.\<close>

lemma read_at_shape:
  assumes "map_option shape (F k) = Some (M # rest)" and "idx < M"
  shows "\<exists>x. read_at F k idx dt = Inr x \<and> shape x = rest"
  using assms by (auto simp: read_at_def dataset_def index0_def)

lemma read_noise_shape:
  assumes "map_option shape (F ''noise'') \<in> {None, Some (M # rest)}" and "idx < M"
  shows "\<exists>nz. read_noise F idx dt = Inr nz \<and> (\<forall>n. nz = Some n \<longrightarrow> shape n = rest)"
proof (cases "F ''noise''")
  case None
  then show ?thesis by (simp add: read_noise_def dom_def)
next
  case (Some a)
  with assms have "map_option shape (F ''noise'') = Some (M # rest)" by simp
  from read_at_shape[where F=F and k="''noise''", OF this assms(2), of dt] Some show ?thesis
    by (auto simp: read_noise_def dom_def)
qed

lemma load_raw_std:
  assumes st: "std_store M C Nx Ny cfg A B" and idx: "idx < M"
  shows "\<exists>im mp mk ksp noise lm.
           load_raw cfg A B idx = Inr (im, mp, mk, ksp, noise, lm) \<and>
           shape im = [1, Nx, Ny] \<and> shape mp = [1, C, Nx, Ny] \<and> shape mk = [1, Nx, Ny] \<and>
           shape lm = [1, Nx, Ny] \<and>
           (if inverse_crime cfg then ksp = None
            else \<exists>k. ksp = Some k \<and> shape k = [1, C, Nx, Ny]) \<and>
           (\<forall>n. noise = Some n \<longrightarrow> shape n = [1, C, Nx, Ny])"
proof -
  from st have s: "map_option shape (A ''imgs'') = Some [M, Nx, Ny]"
      "map_option shape (A ''maps'') = Some [M, C, Nx, Ny]"
      "inverse_crime cfg \<or> map_option shape (A ''ksp'') = Some [M, C, Nx, Ny]"
      "map_option shape (B ''masks'') = Some [M, Nx, Ny]"
      "map_option shape (B ''loss_masks'') = Some [M, Nx, Ny]"
      "map_option shape (B ''noise'') \<in> {None, Some [M, C, Nx, Ny]}"
    by (simp_all add: std_store_def)
  obtain im where im: "read_at A ''imgs'' idx complex64 = Inr im" "shape im = [Nx, Ny]"
    using read_at_shape[where F=A and k="''imgs''", OF s(1) idx] by blast
  obtain mp where mp: "read_at A ''maps'' idx complex64 = Inr mp" "shape mp = [C, Nx, Ny]"
    using read_at_shape[where F=A and k="''maps''", OF s(2) idx] by blast
  obtain mk where mk: "read_at B ''masks'' idx float32 = Inr mk" "shape mk = [Nx, Ny]"
    using read_at_shape[where F=B and k="''masks''", OF s(4) idx] by blast
  obtain lm where lm: "read_at B ''loss_masks'' idx float32 = Inr lm" "shape lm = [Nx, Ny]"
    using read_at_shape[where F=B and k="''loss_masks''", OF s(5) idx] by blast
  have md: "''masks'' \<in> dom B" using s(4) by (auto simp: dom_def)
  show ?thesis
  proof (cases "inverse_crime cfg")
    case True
    obtain nz where nz: "read_noise B idx complex64 = Inr nz"
        "\<forall>n. nz = Some n \<longrightarrow> shape n = [C, Nx, Ny]"
      using read_noise_shape[where F=B, OF s(6) idx] by blast
    show ?thesis
      using True im mp mk lm nz
      by (cases nz) (simp_all add: load_raw_def load_data_def)
  next
    case False
    with s(3) have "map_option shape (A ''ksp'') = Some [M, C, Nx, Ny]" by simp
    then obtain ks where ks: "read_at A ''ksp'' idx complex64 = Inr ks" "shape ks = [C, Nx, Ny]"
      using read_at_shape[where F=A and k="''ksp''", OF _ idx] by blast
    obtain nz where nz: "read_noise B idx float32 = Inr nz"
        "\<forall>n. nz = Some n \<longrightarrow> shape n = [C, Nx, Ny]"
      using read_noise_shape[where F=B, OF s(6) idx] by blast
    show ?thesis
      using False im mp mk lm ks nz md
      by (cases nz) (simp_all add: load_raw_def load_data_ksp_def)
  qed
qed


lemma sim_pre_cart_returns:
  assumes cart: "\<not> noncart cfg"
    and im: "shape im = [N, Nx, Ny]" and mp: "shape mp = [N, C, Nx, Ny]"
    and mk: "shape mk = [N, Nx, Ny]"
    and nz: "\<forall>a. noise = Some a \<longrightarrow> shape a = [N, C, Nx, Ny]"
    and fft: "\<forall>a. shape (fft2uc h a) = shape a"
    and ksp: "if inverse_crime cfg then ksp = None
              else N = 1 \<and> (\<exists>k. ksp = Some k \<and> shape k = [N, C, Nx, Ny])"
  shows "\<exists>ou g'. sim_pre h cfg im mp mk noise ksp g = Inr (ou, g') \<and>
                 shape ou = [N, C, Nx, Ny]"
proof -
  obtain nz' g' where ng: "noise_or_randn noise (shape mp) g = (nz', g')"
    by (cases "noise_or_randn noise (shape mp) g")
  have snz: "shape nz' = [N, C, Nx, Ny]"
    using shape_noise_or_randn[of noise "[N, C, Nx, Ny]" g] nz ng mp by simp
  have ssn: "shape (scalar_mul (noise_scale cfg) nz') = [N, C, Nx, Ny]"
    using snz by simp
  show ?thesis
  proof (cases "inverse_crime cfg")
    case True
    with ksp have k: "ksp = None" by simp
    obtain m1 where m1: "add_axis1 mk = Inr m1" "shape m1 = [N, 1, Nx, Ny]"
      using add_axis1_3[OF mk] by blast
    obtain i1 where i1: "add_axis1 im = Inr i1" "shape i1 = [N, 1, Nx, Ny]"
      using add_axis1_3[OF im] by blast
    obtain p where p: "np_mul i1 mp = Inr p" "shape p = [N, C, Nx, Ny]"
      using binop_axis1[OF i1(2) mp, of "(*)"] unfolding np_mul_def by blast
    have sF: "shape (fft2uc h p) = [N, C, Nx, Ny]" using fft p(2) by simp
    obtain s where s: "np_add (fft2uc h p) (scalar_mul (noise_scale cfg) nz') = Inr s"
        "shape s = [N, C, Nx, Ny]"
      using binop_same[OF sF ssn, of "(+)"] unfolding np_add_def by blast
    obtain ou where ou: "np_mul m1 s = Inr ou" "shape ou = [N, C, Nx, Ny]"
      using binop_axis1[OF m1(2) s(2), of "(*)"] unfolding np_mul_def by blast
    show ?thesis
      using cart True k ng m1(1) i1(1) p(1) s(1) ou by (simp add: sim_pre_def)
  next
    case False
    with ksp obtain k where k: "ksp = Some k" "shape k = [N, C, Nx, Ny]" and n1: "N = 1"
      by auto
    obtain s where s: "np_add k (scalar_mul (noise_scale cfg) nz') = Inr s"
        "shape s = [N, C, Nx, Ny]"
      using binop_same[OF k(2) ssn, of "(+)"] unfolding np_add_def by blast
    have sm: "shape (add_axis0 mk) = [N, 1, Nx, Ny]" using mk n1 by simp
    obtain ou where ou: "np_mul (add_axis0 mk) s = Inr ou" "shape ou = [N, C, Nx, Ny]"
      using binop_axis1[OF sm s(2), of "(*)"] unfolding np_mul_def by blast
    show ?thesis
      using cart False k(1) ng s(1) ou by (simp add: sim_pre_def)
  qed
qed

lemma output_transform_returns:
  assumes "\<not> noncart cfg" and ou: "shape ou = [N, C, Nx, Ny]"
    and mp: "shape mp = [N, C, Nx, Ny]"
    and "\<forall>a. shape (fftmod h a) = shape a" and ifft: "\<forall>a. shape (ifft2uc h a) = shape a"
  shows "\<exists>ou'. output_transform h cfg mp ou = Inr ou' \<and>
               shape ou' = (if adjoint_data cfg then [N, Nx, Ny] else [N, C, Nx, Ny])"
proof (cases "adjoint_data cfg")
  case True
  have a: "shape (np_conj mp) = [N, C, Nx, Ny]" using mp by simp
  have b: "shape (ifft2uc h ou) = [N, C, Nx, Ny]" using ifft ou by simp
  obtain p where "np_mul (np_conj mp) (ifft2uc h ou) = Inr p" "shape p = [N, C, Nx, Ny]"
    using binop_same[OF a b, of "(*)"] unfolding np_mul_def by blast
  with True assms(1) show ?thesis
    by (simp add: output_transform_def sum_axis1_def)
next
  case False
  with assms show ?thesis by (simp add: output_transform_def)
qed

lemma getitem_returns:
  assumes st: "std_store M C Nx Ny cfg data_file masks_file"
    and len: "dataset_len data_file cfg num_data_sets = Inr n" and idx: "idx < n"
    and didx: "\<forall>d. data_idx cfg = Some d \<longrightarrow> d < M"
    and flags: "\<not> scale_data cfg" "\<not> noncart cfg"
    and h: "shape_preserving h"
  shows "\<exists>i d g'. self_getitem h cfg data_file masks_file idx g = Inr ((i, d), g')"
proof -
  let ?i = "case data_idx cfg of Some d \<Rightarrow> d | None \<Rightarrow> idx"
  from st have "map_option shape (data_file ''imgs'') = Some [M, Nx, Ny]"
    by (simp add: std_store_def)
  with len have "n = (case data_idx cfg of Some _ \<Rightarrow> 1
                      | None \<Rightarrow> (case num_data_sets of None \<Rightarrow> M | Some k \<Rightarrow> min k M))"
    by (auto simp: dataset_len_def dataset_def shape_at_def)
  with idx didx have i: "?i < M"
    by (auto split: option.splits)
  from load_raw_std[OF st i] obtain im mp mk ksp noise lm where
    raw: "load_raw cfg data_file masks_file ?i = Inr (im, mp, mk, ksp, noise, lm)"
    and sh: "shape im = [1, Nx, Ny]" "shape mp = [1, C, Nx, Ny]" "shape mk = [1, Nx, Ny]"
      "shape lm = [1, Nx, Ny]"
    and ksp: "if inverse_crime cfg then ksp = None
              else \<exists>k. ksp = Some k \<and> shape k = [1, C, Nx, Ny]"
    and nz: "\<forall>n. noise = Some n \<longrightarrow> shape n = [1, C, Nx, Ny]"
    by blast
  from h have hs: "\<forall>a. shape (fftmod h a) = shape a" "\<forall>a. shape (fft2uc h a) = shape a"
      "\<forall>a. shape (ifft2uc h a) = shape a"
    by (simp_all add: shape_preserving_def)
  let ?mk = "if fully_sampled cfg then np_ones (shape mk) else mk"
  have smk: "shape ?mk = [1, Nx, Ny]" using sh(3) by (simp add: np_ones_def)
  have ksp': "if inverse_crime cfg then ksp = None
              else (1::nat) = 1 \<and> (\<exists>k. ksp = Some k \<and> shape k = [1, C, Nx, Ny])"
    using ksp by (auto split: if_splits)
  from sim_pre_cart_returns[OF flags(2) sh(1,2) smk nz hs(2) ksp', of g]
  obtain o1 g1 where pre: "sim_pre h cfg im mp ?mk noise ksp g = Inr (o1, g1)"
    and so1: "shape o1 = [1, C, Nx, Ny]"
    by blast
  from output_transform_returns[OF flags(2) so1 sh(2) hs(1,3)]
  obtain o2 where tr: "output_transform h cfg mp o1 = Inr o2"
    and so2: "shape o2 = (if adjoint_data cfg then [1, Nx, Ny] else [1, C, Nx, Ny])"
    by blast
  have sim: "sim_data h cfg im mp ?mk noise ksp g = Inr (o2, g1)"
    using pre tr by (simp add: sim_data_def)
  have ic: "inverse_crime cfg \<Longrightarrow> ksp = None" using ksp by simp
  have ld: "self_load_data h cfg data_file masks_file ?i g
              = Inr ((im, fftmod h mp, ?mk, o2, lm), g1)"
    using raw flags sim ic
    by (auto simp: self_load_data_def scale_step_def py_assert_def Let_def)
  have "\<exists>t. squeeze_all (im, fftmod h mp, ?mk, o2, lm) = Inr t"
    using sh smk so2 hs(1)
    by (auto simp: squeeze_all_def shape_at_def squeeze0_def)
  with ld show ?thesis
    by (auto simp: self_getitem_def Let_def)
qed


text \<open>
  C8. Two calls of \<open>__getitem__\<close> on the same stores, with the same configuration and
  index, differ at most in the state of the random generator. When both return, they
  return the same index, \<open>imgs\<close>, \<open>maps\<close>, \<open>masks\<close> and \<open>loss_masks\<close>; when the mask
  store has a \<open>noise\<close> data set they return the same \<open>out\<close> as well.
\<close>

theorem getitem_deterministic:
  assumes r1: "self_getitem h cfg A B idx g1 = Inr ((i1, d1), g1')"
    and r2: "self_getitem h cfg A B idx g2 = Inr ((i2, d2), g2')"
  shows "i1 = i2 \<and> imgs d1 = imgs d2 \<and> maps d1 = maps d2 \<and> masks d1 = masks d2 \<and>
         loss_masks d1 = loss_masks d2 \<and> (''noise'' \<in> dom B \<longrightarrow> out d1 = out d2)"
proof -
  let ?idx = "case data_idx cfg of Some d \<Rightarrow> d | None \<Rightarrow> idx"
  from r1 obtain im mp mk ou lm a b c d e where
    l1: "self_load_data h cfg A B ?idx g1 = Inr ((im, mp, mk, ou, lm), g1')"
    and s1: "squeeze_all (im, mp, mk, ou, lm) = Inr (a, b, c, d, e)"
    and d1: "d1 = \<lparr>imgs = astype complex64 a, maps = astype complex64 b,
                   masks = astype float32 c, loss_masks = astype float32 e,
                   out = astype complex64 d\<rparr>" and i1: "i1 = ?idx"
    by (auto simp: self_getitem_def bindE_eq_Inr Let_def)
  from r2 obtain im2 mp2 mk2 ou2 lm2 a2 b2 c2 dd2 e2 where
    l2: "self_load_data h cfg A B ?idx g2 = Inr ((im2, mp2, mk2, ou2, lm2), g2')"
    and s2: "squeeze_all (im2, mp2, mk2, ou2, lm2) = Inr (a2, b2, c2, dd2, e2)"
    and d2: "d2 = \<lparr>imgs = astype complex64 a2, maps = astype complex64 b2,
                   masks = astype float32 c2, loss_masks = astype float32 e2,
                   out = astype complex64 dd2\<rparr>" and i2: "i2 = ?idx"
    by (auto simp: self_getitem_def bindE_eq_Inr Let_def)
  from self_load_data_parts[OF l1] obtain im0 mpr mk0 ksp0 noise ksp where
    p1: "load_raw cfg A B ?idx = Inr (im0, mpr, mk0, ksp0, noise, lm)"
      "scale_step cfg im0 ksp0 = Inr (im, ksp)"
      "mk = (if fully_sampled cfg then np_ones (shape mk0) else mk0)"
      "mp = (if \<not> noncart cfg then fftmod h mpr else mpr)"
      "sim_data h cfg im mpr mk noise (if inverse_crime cfg then None else ksp) g1
         = Inr (ou, g1')"
    by blast
  from self_load_data_parts[OF l2] p1(1,2) have
    same: "im2 = im" "mp2 = mp" "mk2 = mk" "lm2 = lm"
    and sim2: "sim_data h cfg im mpr mk noise (if inverse_crime cfg then None else ksp) g2
         = Inr (ou2, g2')"
    using p1(3,4) by auto
  have ou: "ou2 = ou" if "''noise'' \<in> dom B"
  proof -
    from load_raw_noise[OF p1(1) that] obtain n where n: "noise = Some n" by auto
    from sim_data_given_noise[of h cfg im mpr mk n
        "if inverse_crime cfg then None else ksp" g1 g2] p1(5) sim2
    show ?thesis by (simp add: n result_of_def)
  qed
  from squeeze_all_parts[OF s1 s2[unfolded same]] ou
  show ?thesis by (auto simp: d1 d2 i1 i2)
qed

theorem getitem_deterministic_witness:
  "''noise'' \<in> dom ex_masks_file_noise \<and>
   (\<exists>d1 g1' d2 g2'.
      self_getitem ref_helpers ex_config ex_data_file ex_masks_file_noise 0 ex_rng
        = Inr ((0, d1), g1') \<and>
      self_getitem ref_helpers ex_config ex_data_file ex_masks_file_noise 0 ex_rng0
        = Inr ((0, d2), g2') \<and>
      imgs d1 = imgs d2 \<and> maps d1 = maps d2 \<and> out d1 = out d2)"
proof -
  have n: "''noise'' \<in> dom ex_masks_file_noise"
    by (simp add: ex_masks_file_noise_def)
  obtain d1 g1' where r1:
    "self_getitem ref_helpers ex_config ex_data_file ex_masks_file_noise 0 ex_rng
       = Inr ((0, d1), g1')"
    using ex_getitem_noise by blast
  obtain d2 g2' where r2:
    "self_getitem ref_helpers ex_config ex_data_file ex_masks_file_noise 0 ex_rng0
       = Inr ((0, d2), g2')"
    using ex_getitem_noise by blast
  from getitem_deterministic[OF r1 r2] n r1 r2 show ?thesis by blast
qed

text \<open>
  C7. Every sample \<open>__getitem__\<close> returns has \<open>imgs\<close>, \<open>maps\<close> and \<open>out\<close> of type
  \<open>complex64\<close> and \<open>masks\<close> and \<open>loss_masks\<close> of type \<open>float32\<close>, and the entries of
  the two masks are real. By \<open>getitem_returns\<close> above, a sample is returned for every
  index below \<open>__len__\<close> of a store of the data model's layout.
\<close>

theorem getitem_dtypes:
  assumes "self_getitem h cfg A B idx g = Inr ((i, d), g')"
  shows "fst (imgs d) = complex64 \<and> fst (maps d) = complex64 \<and> fst (out d) = complex64 \<and>
         fst (masks d) = float32 \<and> fst (loss_masks d) = float32 \<and>
         (\<forall>z \<in> set (data (snd (masks d))). Im z = 0) \<and>
         (\<forall>z \<in> set (data (snd (loss_masks d))). Im z = 0)"
  using assms
  by (auto simp: self_getitem_def bindE_eq_Inr Let_def astype_def cast_def)


theorem getitem_dtypes_witness:
  "\<exists>d g'. self_getitem ref_helpers ex_config ex_data_file ex_masks_file 0 ex_rng
             = Inr ((0, d), g') \<and>
          fst (imgs d) = complex64 \<and> fst (maps d) = complex64 \<and> fst (out d) = complex64 \<and>
          fst (masks d) = float32 \<and> fst (loss_masks d) = float32"
proof -
  obtain d g' where r:
    "self_getitem ref_helpers ex_config ex_data_file ex_masks_file 0 ex_rng = Inr ((0, d), g')"
    using ex_getitem by blast
  from getitem_dtypes[OF r] r show ?thesis by blast
qed

section \<open>Coil-map modulation\<close>

lemma ex_load_raw:
  "load_raw ex_config ex_data_file ex_masks_file 0 =
     Inr (mk_array [1, 1, 2] [1, 1], mk_array [1, 2, 1, 2] [1, 1, \<i>, 1],
          mk_array [1, 1, 2] [1, 1], Some (mk_array [1, 2, 1, 2] [1, 1, 2, 0]), None,
          mk_array [1, 1, 2] [1, 0])"
  by (simp add: reader_defs ex_store_defs ex_config_def)

text \<open>
  C3, as the code has it. In Cartesian modes \<open>_load_data\<close> runs the simulation, and with
  it the adjoint coil combination, on the coil maps as they were read from the store;
  \<open>fftmod\<close> is applied to the maps afterwards, and only the maps returned in the sample
  are modulated.
\<close>

theorem maps_modulated_after_simulation:
  assumes "\<not> noncart cfg"
    and "load_raw cfg data_file masks_file idx = Inr (im0, mp, mk0, ksp0, noise, lm)"
    and "scale_step cfg im0 ksp0 = Inr (im, ksp)"
  shows "self_load_data h cfg data_file masks_file idx g =
           bindE (sim_data h cfg im mp
                    (if fully_sampled cfg then np_ones (shape mk0) else mk0) noise
                    (if inverse_crime cfg then None else ksp) g)
             (\<lambda>(ou, g'). Inr ((im, fftmod h mp,
                                 if fully_sampled cfg then np_ones (shape mk0) else mk0,
                                 ou, lm), g'))"
  using assms by (simp add: self_load_data_def py_assert_def Let_def)

theorem maps_modulated_after_simulation_witness:
  "\<not> noncart ex_config \<and>
   load_raw ex_config ex_data_file ex_masks_file 0 =
     Inr (mk_array [1, 1, 2] [1, 1], mk_array [1, 2, 1, 2] [1, 1, \<i>, 1],
          mk_array [1, 1, 2] [1, 1], Some (mk_array [1, 2, 1, 2] [1, 1, 2, 0]), None,
          mk_array [1, 1, 2] [1, 0]) \<and>
   scale_step ex_config (mk_array [1, 1, 2] [1, 1]) (Some (mk_array [1, 2, 1, 2] [1, 1, 2, 0]))
     = Inr (mk_array [1, 1, 2] [1, 1], Some (mk_array [1, 2, 1, 2] [1, 1, 2, 0])) \<and>
   self_load_data ref_helpers ex_config ex_data_file ex_masks_file 0 ex_rng =
     bindE (sim_data ref_helpers ex_config (mk_array [1, 1, 2] [1, 1])
              (mk_array [1, 2, 1, 2] [1, 1, \<i>, 1]) (mk_array [1, 1, 2] [1, 1]) None
              (Some (mk_array [1, 2, 1, 2] [1, 1, 2, 0])) ex_rng)
       (\<lambda>(ou, g'). Inr ((mk_array [1, 1, 2] [1, 1],
                           fftmod_ref (mk_array [1, 2, 1, 2] [1, 1, \<i>, 1]),
                           mk_array [1, 1, 2] [1, 1], ou, mk_array [1, 1, 2] [1, 0]), g'))"
proof -
  have h1: "\<not> noncart ex_config" by (simp add: ex_config_def)
  have h3: "scale_step ex_config (mk_array [1, 1, 2] [1, 1])
              (Some (mk_array [1, 2, 1, 2] [1, 1, 2, 0]))
            = Inr (mk_array [1, 1, 2] [1, 1], Some (mk_array [1, 2, 1, 2] [1, 1, 2, 0]))"
    by (simp add: scale_step_def ex_config_def)
  from maps_modulated_after_simulation[OF h1 ex_load_raw h3, of ref_helpers ex_rng]
  show ?thesis using h1 ex_load_raw h3 by (simp add: ex_config_def)
qed

text \<open>
  C3, as the claim states it, fails. On the sample store, with \<open>stdev = 0\<close>, the adjoint
  output at \<open>[0, 0, 1]\<close> is \<open>4 / sqrt 2\<close>; a simulation that consumed the modulated maps
  would give \<open>- 4 / sqrt 2\<close> there.
\<close>

theorem maps_modulated_first_counterexample:
  "self_load_data ref_helpers (ex_config\<lparr>stdev := 0\<rparr>) ex_data_file ex_masks_file 0 ex_rng \<noteq>
   load_data_modulated_first ref_helpers (ex_config\<lparr>stdev := 0\<rparr>) ex_data_file
     ex_masks_file 0 ex_rng"
proof
  let ?pick = "\<lambda>r. case r of Inl e \<Rightarrow> None
                 | Inr ((im, mp, mk, ou, lm), g) \<Rightarrow> Some (item ou [0, 0, 1 :: nat])"
  assume eq: "self_load_data ref_helpers (ex_config\<lparr>stdev := 0\<rparr>) ex_data_file ex_masks_file
                0 ex_rng =
              load_data_modulated_first ref_helpers (ex_config\<lparr>stdev := 0\<rparr>) ex_data_file
                ex_masks_file 0 ex_rng"
  have a: "?pick (self_load_data ref_helpers (ex_config\<lparr>stdev := 0\<rparr>) ex_data_file
                    ex_masks_file 0 ex_rng) = Some (4 / complex_of_real (sqrt 2))"
    by (simp add: sim_defs reader_defs ex_store_defs ex_config_def split_def Let_def
          noise_scale_def item_record bcast_index_def dft2c_def centred_def)
  have b: "?pick (load_data_modulated_first ref_helpers (ex_config\<lparr>stdev := 0\<rparr>) ex_data_file
                    ex_masks_file 0 ex_rng) = Some (- (4 / complex_of_real (sqrt 2)))"
    by (simp add: load_data_modulated_first_def sim_defs reader_defs ex_store_defs ex_config_def
          split_def Let_def noise_scale_def item_record bcast_index_def dft2c_def centred_def
          fftmod_ref_def)
  from a b eq show False by simp
qed


section \<open>Fully sampled masks\<close>

lemma load_data_mask:
  assumes "load_data idx A B = Inr (im, mp, mk, noise, lm)"
  shows "\<exists>m0 im0. read_at B ''masks'' idx float32 = Inr m0 \<and>
           read_at A ''imgs'' idx complex64 = Inr im0 \<and>
           (if length (shape m0) = 2 then im = add_axis0 im0 \<and> mk = add_axis0 m0
            else im = im0 \<and> mk = m0)"
  using assms unfolding load_data_def
  by (elim bindE_InrE) (auto split: if_splits)

lemma load_data_ksp_mask:
  assumes "load_data_ksp idx A B = Inr (im, mp, mk, ks, noise, lm)"
  shows "\<exists>m0 im0.
           (if ''masks'' \<in> dom B then read_at B ''masks'' idx float32
            else bindE (dataset B (''mask_traj_'' @ str_nat idx)) (\<lambda>a. Inr (cast float32 a)))
             = Inr m0 \<and>
           read_at A ''imgs'' idx complex64 = Inr im0 \<and>
           (if length (shape m0) = 2 then im = add_axis0 im0 \<and> mk = add_axis0 m0
            else im = im0 \<and> mk = m0)"
  using assms unfolding load_data_ksp_def
  by (elim bindE_InrE) (auto split: if_splits)

lemma load_raw_mask:
  assumes "load_raw cfg A B idx = Inr (im, mp, mk, ksp, noise, lm)"
  shows "\<exists>m0 im0. loaded_mask cfg B idx = Inr m0 \<and>
           read_at A ''imgs'' idx complex64 = Inr im0 \<and>
           (if length (shape m0) = 2 then im = add_axis0 im0 \<and> mk = add_axis0 m0
            else im = im0 \<and> mk = m0)"
proof (cases "inverse_crime cfg")
  case True
  with assms obtain noise' where "load_data idx A B = Inr (im, mp, mk, noise', lm)"
    unfolding load_raw_def by (auto elim!: bindE_InrE)
  from load_data_mask[OF this] True show ?thesis
    by (simp add: loaded_mask_def)
next
  case False
  with assms obtain ks noise' where "load_data_ksp idx A B = Inr (im, mp, mk, ks, noise', lm)"
    unfolding load_raw_def by (auto elim!: bindE_InrE)
  from load_data_ksp_mask[OF this] False show ?thesis
    by (auto simp: loaded_mask_def)
qed

lemma scale_step_Inr:
  "scale_step cfg im0 ksp0 = Inr (im, ksp) \<Longrightarrow> im = im0 \<and> ksp = ksp0"
  by (auto simp: scale_step_def py_assert_def split: if_splits)

lemma cast_np_ones [simp]: "cast dt (np_ones s) = np_ones s"
  by (cases dt) (simp_all add: cast_def np_ones_def)

lemma squeeze0_np_ones:
  "squeeze0 (np_ones s) = Inr c \<Longrightarrow> c = np_ones (tl s)"
  by (cases s) (auto simp: squeeze0_def np_ones_def split: if_splits)

lemmas ex_b1_defs = ex_b1_data_file_def ex_b1_masks_file_def mk_array_def dom_def

lemma squeeze0_np_ones_1 [simp]: "squeeze0 (np_ones (Suc 0 # s)) = Inr (np_ones s)"
  by (simp add: squeeze0_def np_ones_def)

lemma shape_np_ones [simp]: "shape (np_ones s) = s"
  by (simp add: np_ones_def)

lemma item_np_ones: "in_range idx s \<Longrightarrow> item (np_ones s) idx = 1"
  using ravel_lt[of idx s] by (simp add: item_def np_ones_def)

text \<open>
  C6, as the code has it. With \<open>fully_sampled\<close> set, the \<open>masks\<close> of every sample
  returned is an all-ones \<open>float32\<close> array. Its shape is the shape of the mask read from
  the store when that mask has rank 2. For a mask of any other rank it is that shape
  without its leading axis when the image read from the store has a leading axis of
  length 1 (the batch-of-one squeeze), and that shape unchanged otherwise.
\<close>

theorem fully_sampled_masks:
  assumes fs: "fully_sampled cfg"
    and r: "self_getitem h cfg data_file masks_file idx g = Inr ((i, d), g')"
  shows "\<exists>m0 im0.
           loaded_mask cfg masks_file i = Inr m0 \<and>
           read_at data_file ''imgs'' i complex64 = Inr im0 \<and>
           masks d = (float32,
                      np_ones (if length (shape m0) = 2 then shape m0
                               else if hd (shape im0) = 1 then tl (shape m0)
                               else shape m0))"
proof -
  from r obtain im mp mk ou lm g1 a b c dd e where
    i: "i = (case data_idx cfg of Some d \<Rightarrow> d | None \<Rightarrow> idx)"
    and l: "self_load_data h cfg data_file masks_file i g = Inr ((im, mp, mk, ou, lm), g1)"
    and s: "squeeze_all (im, mp, mk, ou, lm) = Inr (a, b, c, dd, e)"
    and d: "masks d = astype float32 c"
    by (auto simp: self_getitem_def bindE_eq_Inr Let_def)
  from self_load_data_parts[OF l] fs obtain im0' mk0 ksp0 noise mpr ksp where
    raw: "load_raw cfg data_file masks_file i = Inr (im0', mpr, mk0, ksp0, noise, lm)"
    and sc: "scale_step cfg im0' ksp0 = Inr (im, ksp)"
    and mk: "mk = np_ones (shape mk0)"
    by auto
  from scale_step_Inr[OF sc] have im: "im = im0'" by simp
  from load_raw_mask[OF raw] obtain m0 im0 where
    m0: "loaded_mask cfg masks_file i = Inr m0"
    and im0: "read_at data_file ''imgs'' i complex64 = Inr im0"
    and norm: "if length (shape m0) = 2 then im0' = add_axis0 im0 \<and> mk0 = add_axis0 m0
               else im0' = im0 \<and> mk0 = m0"
    by blast
  have "c = np_ones (if length (shape m0) = 2 then shape m0
                     else if hd (shape im0) = 1 then tl (shape m0) else shape m0)"
  proof (cases "length (shape m0) = 2")
    case True
    with norm im mk have "shape im = 1 # shape im0" "mk = np_ones (1 # shape m0)"
      by (simp_all add: add_axis0_def)
    with s True show ?thesis
      by (auto simp: squeeze_all_def shape_at_def bindE_eq_Inr dest: squeeze0_np_ones)
  next
    case False
    with norm im mk have "im = im0" "mk = np_ones (shape m0)" by simp_all
    with s False show ?thesis
      by (cases "shape im0")
         (auto simp: squeeze_all_def shape_at_def bindE_eq_Inr split: if_splits
               dest: squeeze0_np_ones)
  qed
  with m0 im0 d show ?thesis by (simp add: astype_def)
qed


theorem fully_sampled_masks_witness:
  "fully_sampled (ex_config\<lparr>fully_sampled := True\<rparr>) \<and>
   (\<exists>d g'. self_getitem ref_helpers (ex_config\<lparr>fully_sampled := True\<rparr>)
              ex_data_file ex_masks_file 0 ex_rng = Inr ((0, d), g') \<and>
            map_sum id shape (loaded_mask (ex_config\<lparr>fully_sampled := True\<rparr>) ex_masks_file 0)
              = Inr [1, 2] \<and>
            masks d = (float32, np_ones [1, 2]))"
proof -
  let ?cfg = "ex_config\<lparr>fully_sampled := True\<rparr>"
  have fs: "fully_sampled ?cfg" by simp
  have "\<exists>d g'. self_getitem ref_helpers ?cfg ex_data_file ex_masks_file 0 ex_rng
                  = Inr ((0, d), g')"
    by (simp add: sim_defs reader_defs ex_store_defs ex_config_def split_def Let_def)
  then obtain d g' where
    r: "self_getitem ref_helpers ?cfg ex_data_file ex_masks_file 0 ex_rng = Inr ((0, d), g')"
    by blast
  have m: "loaded_mask ?cfg ex_masks_file 0 = Inr (mk_array [1, 2] [1, 1])"
    by (simp add: loaded_mask_def reader_defs ex_store_defs ex_config_def)
  from fully_sampled_masks[OF fs r] m have "masks d = (float32, np_ones [1, 2])"
    by (auto simp: mk_array_def)
  with fs r m show ?thesis by (auto simp: mk_array_def)
qed


text \<open>
  C6, as the claim states it, fails. In a store whose sample is a batch of one, the mask
  read has shape \<open>[1, 1, 2]\<close> and the \<open>masks\<close> returned is the all-ones array of shape
  \<open>[1, 2]\<close>.
\<close>

theorem fully_sampled_mask_shape_counterexample:
  "map_sum id shape (loaded_mask (ex_config\<lparr>fully_sampled := True\<rparr>) ex_b1_masks_file 0)
     = Inr [1, 1, 2] \<and>
   map_option masks
     (sample_of (self_getitem ref_helpers (ex_config\<lparr>fully_sampled := True\<rparr>)
                   ex_b1_data_file ex_b1_masks_file 0 ex_rng))
     = Some (float32, np_ones [1, 2]) \<and>
   np_ones [1, 2] \<noteq> np_ones [1, 1, 2]"
proof (intro conjI)
  show "map_sum id shape (loaded_mask (ex_config\<lparr>fully_sampled := True\<rparr>) ex_b1_masks_file 0)
     = Inr [1, 1, 2]"
    by (simp add: loaded_mask_def reader_defs ex_b1_defs ex_config_def)
  show "map_option masks
     (sample_of (self_getitem ref_helpers (ex_config\<lparr>fully_sampled := True\<rparr>)
                   ex_b1_data_file ex_b1_masks_file 0 ex_rng))
     = Some (float32, np_ones [1, 2])"
    by (simp add: sample_of_def sim_defs reader_defs ex_b1_defs ex_config_def split_def Let_def
          np_ones_def)
  show "np_ones [1, 2] \<noteq> np_ones [1, 1, 2]"
    by (simp add: np_ones_def)
qed

section \<open>Failing fast\<close>

text \<open>
  C9. With \<open>scale_data\<close> set, \<open>__getitem__\<close> never returns a sample: once the storage
  read has succeeded, the assertion \<open>SEE FIXME\<close> fails, before any scaling and before
  the simulation (the result mentions neither the helpers nor the generator). The only
  other outcome is the error of the storage read itself.
\<close>

theorem scale_data_fails:
  assumes "scale_data cfg"
  shows "self_getitem h cfg data_file masks_file idx g =
           (case load_raw cfg data_file masks_file
                   (case data_idx cfg of Some d \<Rightarrow> d | None \<Rightarrow> idx) of
              Inl e \<Rightarrow> Inl e
            | Inr _ \<Rightarrow> Inl (AssertionError ''SEE FIXME''))
         \<and> (\<forall>r. self_getitem h cfg data_file masks_file idx g \<noteq> Inr r)"
  using assms
  by (auto simp: self_getitem_def self_load_data_def scale_step_def py_assert_def
           split: sum.splits prod.splits)

theorem scale_data_fails_witness:
  "scale_data (ex_config\<lparr>scale_data := True\<rparr>) \<and>
   self_getitem ref_helpers (ex_config\<lparr>scale_data := True\<rparr>)
       ex_data_file ex_masks_file 0 ex_rng
     = Inl (AssertionError ''SEE FIXME'')"
  using scale_data_fails[of "ex_config\<lparr>scale_data := True\<rparr>" ref_helpers
          ex_data_file ex_masks_file 0 ex_rng]
  by (simp add: reader_defs ex_store_defs ex_config_def)

text \<open>
  C4. With \<open>noncart\<close> and \<open>inverse_crime\<close> both set, \<open>__getitem__\<close> never returns a
  sample. Once the storage read has succeeded an assertion fails before \<open>_sim_data\<close> is
  called (the result mentions neither the helpers nor the generator): \<open>SEE FIXME\<close> when
  \<open>scale_data\<close> is set as well, and \<open>FIXME: forward sim of NUFFT\<close> otherwise. The only
  other outcome is the error of the storage read itself.
\<close>

theorem noncart_inverse_crime_fails:
  assumes "noncart cfg" and "inverse_crime cfg"
  shows "self_getitem h cfg data_file masks_file idx g =
           (case load_data (case data_idx cfg of Some d \<Rightarrow> d | None \<Rightarrow> idx)
                   data_file masks_file of
              Inl e \<Rightarrow> Inl e
            | Inr _ \<Rightarrow>
                Inl (AssertionError (if scale_data cfg then ''SEE FIXME''
                                     else ''FIXME: forward sim of NUFFT'')))
         \<and> (\<forall>r. self_getitem h cfg data_file masks_file idx g \<noteq> Inr r)"
  using assms
  by (auto simp: self_getitem_def self_load_data_def load_raw_def scale_step_def
                 py_assert_def
           split: sum.splits prod.splits)

theorem noncart_inverse_crime_fails_witness:
  "noncart (ex_config\<lparr>inverse_crime := True, noncart := True\<rparr>) \<and>
   inverse_crime (ex_config\<lparr>inverse_crime := True, noncart := True\<rparr>) \<and>
   self_getitem ref_helpers (ex_config\<lparr>inverse_crime := True, noncart := True\<rparr>)
       ex_data_file ex_masks_file 0 ex_rng
     = Inl (AssertionError ''FIXME: forward sim of NUFFT'')"
  using noncart_inverse_crime_fails[of
          "ex_config\<lparr>inverse_crime := True, noncart := True\<rparr>" ref_helpers
          ex_data_file ex_masks_file 0 ex_rng]
  by (simp add: reader_defs ex_store_defs ex_config_def)

end
